theory Spec2Isabelle
  imports Complex_Main "HOL-Library.Word" "HOL-Library.Signed_Division" "HOL-Library.Sublist"
begin

section \<open>PetIBM: the fractional-step engine of \<open>NavierStokesSolver\<close>\<close>

text \<open>
  The development embeds the methods of \<open>NavierStokesSolver.cpp\<close> that drive one time
  step: \<open>generateRHS1\<close>, \<open>generateRHS2\<close>, \<open>stepTime\<close>, \<open>solveIntermediateVelocity\<close>,
  \<open>solvePoissonSystem\<close>, \<open>projectionStep\<close>, \<open>savePoint\<close>, \<open>finished\<close>,
  \<open>countNumNonZeros\<close> and the constructor.

  Conventions of the embedding:
  \<^item> \<open>PetscInt\<close> is PETSc's index type, a 32-bit signed \<open>int\<close> in the default
    configuration. It is a \<open>32 word\<close> read through \<open>sint\<close>. Signed overflow and division by
    zero are undefined behaviour in C++; the model makes them a \<open>fault\<close> value.
  \<^item> \<open>PetscScalar\<close> is modelled by the exact reals: rounding is not part of the model.
  \<^item> A \<open>Vec\<close>, \<open>Mat\<close> or \<open>KSP\<close> member is a nullable handle: \<open>None\<close> is \<open>PETSC_NULL\<close>,
    \<open>Some v\<close> is an allocated object with contents \<open>v\<close>. Every member owns an object of
    its own, so the contents are kept in the member itself.
  \<^item> A method that returns \<open>PetscErrorCode\<close> yields an \<open>outcome\<close>: it returns a code
    together with the updated solver, or the process exits, or the behaviour is undefined.
  \<^item> The solver carries two components that the class does not have: \<open>printed\<close>, the
    messages written by \<open>PetscPrintf\<close>, and \<open>history\<close>, the record of the methods entered
    and of the log stages pushed and popped. They are written, never read, by the model of
    the code, and make the order of execution a property of the final state.
\<close>

subsection \<open>Faults and outcomes\<close>

datatype fault = DivisionByZero | SignedOverflow | OutOfBounds

type_synonym PetscErrorCode = int

datatype 's outcome =
    Return PetscErrorCode 's   \<comment> \<open>the routine returned this code, leaving this state\<close>
  | Exit int 's                \<comment> \<open>\<open>exit(status)\<close> was called in this state\<close>
  | Undefined fault            \<comment> \<open>undefined behaviour\<close>

text \<open>\<open>ierr = f(); CHKERRQ(ierr);\<close> followed by the rest of the body: a non-zero code is
  returned to the caller at once.\<close>

definition CHKERRQ :: "'s outcome \<Rightarrow> ('s \<Rightarrow> 's outcome) \<Rightarrow> 's outcome" where
  "CHKERRQ m k =
     (case m of
        Return ierr s \<Rightarrow> if ierr \<noteq> 0 then Return ierr s else k s
      | Exit status s \<Rightarrow> Exit status s
      | Undefined f \<Rightarrow> Undefined f)"

subsection \<open>\<open>PetscInt\<close> arithmetic\<close>

type_synonym PetscInt = "32 word"

definition PETSC_MAX_INT :: int where
  "PETSC_MAX_INT = 2147483647"

definition PETSC_MIN_INT :: int where
  "PETSC_MIN_INT = - 2147483648"

text \<open>The value of a signed arithmetic expression: the \<open>PetscInt\<close> holding it when it is
  representable, undefined behaviour otherwise.\<close>

definition signed_result :: "int \<Rightarrow> fault + PetscInt" where
  "signed_result r =
     (if PETSC_MIN_INT \<le> r \<and> r \<le> PETSC_MAX_INT then Inr (word_of_int r)
      else Inl SignedOverflow)"

text \<open>\<open>a + b\<close>\<close>

definition PetscInt_add :: "PetscInt \<Rightarrow> PetscInt \<Rightarrow> fault + PetscInt" where
  "PetscInt_add a b = signed_result (sint a + sint b)"

text \<open>\<open>a++\<close>\<close>

definition PetscInt_incr :: "PetscInt \<Rightarrow> fault + PetscInt" where
  "PetscInt_incr a = signed_result (sint a + 1)"

text \<open>\<open>a % b\<close>: the remainder of the division that truncates towards zero; undefined for a
  zero divisor and where the quotient is not representable.\<close>

definition PetscInt_rem :: "PetscInt \<Rightarrow> PetscInt \<Rightarrow> fault + PetscInt" where
  "PetscInt_rem a b =
     (if sint b = 0 then Inl DivisionByZero
      else if sint a = PETSC_MIN_INT \<and> sint b = - 1 then Inl SignedOverflow
      else Inr (word_of_int (sint a smod sint b)))"

subsection \<open>The linear-algebra engine\<close>

text \<open>
  PETSc is an external library. Its calls are modelled by their documented contracts: the
  arguments are validated (a null handle, operands of different sizes) and a non-zero error
  code is returned without writing the result; otherwise the result object receives the
  value computed. \<open>Inl\<close> carries the non-zero code, \<open>Inr\<close> the new contents of the result.
\<close>

type_synonym PetscScalar = real
type_synonym Vec = "PetscScalar list"
type_synonym Mat = "PetscScalar list list"   \<comment> \<open>the rows of the operator\<close>
type_synonym KSPConvergedReason = int

definition PETSC_ERR_ARG_SIZ :: PetscErrorCode where
  "PETSC_ERR_ARG_SIZ = 60"

definition PETSC_ERR_ARG_INCOMP :: PetscErrorCode where
  "PETSC_ERR_ARG_INCOMP = 75"

definition PETSC_ERR_ARG_NULL :: PetscErrorCode where
  "PETSC_ERR_ARG_NULL = 85"

text \<open>\<open>VecWAXPY(w, alpha, x, y)\<close>: \<open>w = alpha x + y\<close>.\<close>

definition VecWAXPY ::
  "Vec option \<Rightarrow> PetscScalar \<Rightarrow> Vec option \<Rightarrow> Vec option \<Rightarrow> PetscErrorCode + Vec" where
  "VecWAXPY w alpha x y =
     (case (w, x, y) of
        (Some wv, Some xv, Some yv) \<Rightarrow>
          if length xv = length wv \<and> length yv = length wv
          then Inr (map2 (\<lambda>a b. alpha * a + b) xv yv)
          else Inl PETSC_ERR_ARG_INCOMP
      | _ \<Rightarrow> Inl PETSC_ERR_ARG_NULL)"

text \<open>\<open>VecPointwiseMult(w, x, y)\<close>: \<open>w[i] = x[i] * y[i]\<close>.\<close>

definition VecPointwiseMult ::
  "Vec option \<Rightarrow> Vec option \<Rightarrow> Vec option \<Rightarrow> PetscErrorCode + Vec" where
  "VecPointwiseMult w x y =
     (case (w, x, y) of
        (Some wv, Some xv, Some yv) \<Rightarrow>
          if length xv = length wv \<and> length yv = length wv
          then Inr (map2 (\<lambda>a b. a * b) xv yv)
          else Inl PETSC_ERR_ARG_INCOMP
      | _ \<Rightarrow> Inl PETSC_ERR_ARG_NULL)"

text \<open>\<open>VecScale(x, alpha)\<close>: \<open>x = alpha x\<close>.\<close>

definition VecScale :: "Vec option \<Rightarrow> PetscScalar \<Rightarrow> PetscErrorCode + Vec" where
  "VecScale x alpha =
     (case x of
        Some xv \<Rightarrow> Inr (map (\<lambda>a. alpha * a) xv)
      | None \<Rightarrow> Inl PETSC_ERR_ARG_NULL)"

text \<open>The product of an operator, given by its rows, with a vector.\<close>

definition row_times :: "PetscScalar list \<Rightarrow> Vec \<Rightarrow> PetscScalar" where
  "row_times row x = sum_list (map2 (\<lambda>a b. a * b) row x)"

definition mat_vec :: "Mat \<Rightarrow> Vec \<Rightarrow> Vec" where
  "mat_vec M x = map (\<lambda>row. row_times row x) M"

text \<open>An operator with \<open>m\<close> rows and \<open>n\<close> columns.\<close>

definition mat_dims :: "Mat \<Rightarrow> nat \<Rightarrow> nat \<Rightarrow> bool" where
  "mat_dims M m n = (length M = m \<and> list_all (\<lambda>row. length row = n) M)"

text \<open>\<open>MatMult(mat, x, y)\<close>: \<open>y = mat x\<close>.\<close>

definition MatMult :: "Mat option \<Rightarrow> Vec option \<Rightarrow> Vec option \<Rightarrow> PetscErrorCode + Vec" where
  "MatMult mat x y =
     (case (mat, x, y) of
        (Some M, Some xv, Some yv) \<Rightarrow>
          if mat_dims M (length yv) (length xv) then Inr (mat_vec M xv)
          else Inl PETSC_ERR_ARG_SIZ
      | _ \<Rightarrow> Inl PETSC_ERR_ARG_NULL)"

text \<open>\<open>MatMultAdd(mat, v1, v2, v3)\<close>: \<open>v3 = v2 + mat v1\<close>.\<close>

definition MatMultAdd ::
  "Mat option \<Rightarrow> Vec option \<Rightarrow> Vec option \<Rightarrow> Vec option \<Rightarrow> PetscErrorCode + Vec" where
  "MatMultAdd mat v1 v2 v3 =
     (case (mat, v1, v2, v3) of
        (Some M, Some x, Some y, Some z) \<Rightarrow>
          if mat_dims M (length z) (length x) \<and> length y = length z
          then Inr (map2 (\<lambda>a b. a + b) y (mat_vec M x))
          else Inl PETSC_ERR_ARG_SIZ
      | _ \<Rightarrow> Inl PETSC_ERR_ARG_NULL)"

text \<open>
  A Krylov solver context. What a solve computes is not decided by this program: it is the
  function \<open>ksp_apply\<close> of the number of solves done so far, the right-hand side and the
  contents of the solution vector on entry, giving the error code, the solution and the
  convergence reason. The context remembers the reason of its last solve.
\<close>

record KSP =
  ksp_apply :: "nat \<Rightarrow> Vec \<Rightarrow> Vec \<Rightarrow> PetscErrorCode \<times> Vec \<times> KSPConvergedReason"
  ksp_solves :: nat
  ksp_reason :: KSPConvergedReason

text \<open>\<open>KSPSolve(ksp, b, x)\<close>: the code, the context and the solution vector afterwards.\<close>

definition KSPSolve ::
  "KSP option \<Rightarrow> Vec option \<Rightarrow> Vec option \<Rightarrow> PetscErrorCode \<times> KSP option \<times> Vec option" where
  "KSPSolve ksp b x =
     (case (ksp, b, x) of
        (Some k, Some bv, Some xv) \<Rightarrow>
          (case ksp_apply k (ksp_solves k) bv xv of
             (ierr, xv', reason) \<Rightarrow>
               (ierr, Some (k\<lparr>ksp_solves := Suc (ksp_solves k), ksp_reason := reason\<rparr>),
                Some xv'))
      | _ \<Rightarrow> (PETSC_ERR_ARG_NULL, ksp, x))"

text \<open>\<open>KSPGetConvergedReason(ksp, &reason)\<close>\<close>

definition KSPGetConvergedReason :: "KSP option \<Rightarrow> PetscErrorCode + KSPConvergedReason" where
  "KSPGetConvergedReason ksp =
     (case ksp of Some k \<Rightarrow> Inr (ksp_reason k) | None \<Rightarrow> Inl PETSC_ERR_ARG_NULL)"

subsection \<open>Formatting \<open>%d\<close>\<close>

fun decimal :: "nat \<Rightarrow> string" where
  "decimal n =
     (if n < 10 then [''0123456789'' ! n]
      else decimal (n div 10) @ [''0123456789'' ! (n mod 10)])"

definition format_d :: "int \<Rightarrow> string" where
  "format_d i = (if i < 0 then CHR ''-'' # decimal (nat (- i)) else decimal (nat i))"

subsection \<open>The solver object\<close>

record SimulationParameters =
  startStep :: PetscInt
  nt :: PetscInt
  nsave :: PetscInt

datatype PetscLogStage =
    stageInitialize
  | stageRHSVelocitySystem
  | stageSolveVelocitySystem
  | stageRHSPoissonSystem
  | stageSolvePoissonSystem
  | stageProjectionStep

datatype routine =
    M_calculateExplicitTerms
  | M_updateBoundaryGhosts
  | M_generateBC1
  | M_generateRHS1
  | M_solveIntermediateVelocity
  | M_generateR2
  | M_generateRHS2
  | M_solvePoissonSystem
  | M_projectionStep

text \<open>What is observable of an execution: the methods entered, the log stages pushed and
  popped, in program order.\<close>

datatype event = Call routine | StagePush PetscLogStage | StagePop

text \<open>
  The members of the class that the embedded methods read or write. \<open>simParams\<close> is the
  borrowed configuration object (the model keeps its value), \<open>printed\<close> is what
  \<open>PetscPrintf\<close> has written, and \<open>history\<close> is the record of events. The mesh, the flow
  description and the \<open>DM\<close> handles are read by the numerical kernels only.
\<close>

record NavierStokesSolver =
  caseFolder :: string
  simParams :: SimulationParameters
  timeStep :: PetscInt
  qxLocal :: "Vec option"
  qyLocal :: "Vec option"
  qzLocal :: "Vec option"
  H :: "Vec option"
  rn :: "Vec option"
  RInv :: "Vec option"
  MHat :: "Vec option"
  BN :: "Vec option"
  bc1 :: "Vec option"
  rhs1 :: "Vec option"
  r2 :: "Vec option"
  rhs2 :: "Vec option"
  temp :: "Vec option"
  q :: "Vec option"
  qStar :: "Vec option"
  lambda :: "Vec option"
  A :: "Mat option"
  QT :: "Mat option"
  BNQ :: "Mat option"
  QTBNQ :: "Mat option"
  ksp1 :: "KSP option"
  ksp2 :: "KSP option"
  printed :: "string list"
  history :: "event list"

subsection \<open>Logging and printing\<close>

text \<open>Entering a routine is recorded in the history.\<close>

definition enter :: "routine \<Rightarrow> NavierStokesSolver \<Rightarrow> NavierStokesSolver" where
  "enter m s = s\<lparr>history := history s @ [Call m]\<rparr>"

text \<open>\<open>PetscLogStagePush(stage)\<close> and \<open>PetscLogStagePop()\<close>: profiling calls on stages
  registered by the constructor.\<close>

definition PetscLogStagePush :: "PetscLogStage \<Rightarrow> NavierStokesSolver \<Rightarrow> NavierStokesSolver outcome" where
  "PetscLogStagePush stage s = Return 0 (s\<lparr>history := history s @ [StagePush stage]\<rparr>)"

definition PetscLogStagePop :: "NavierStokesSolver \<Rightarrow> NavierStokesSolver outcome" where
  "PetscLogStagePop s = Return 0 (s\<lparr>history := history s @ [StagePop]\<rparr>)"

text \<open>\<open>PetscPrintf(PETSC_COMM_WORLD, ...)\<close> with the formatted message; the call
  returns 0.\<close>

definition PetscPrintf :: "string \<Rightarrow> NavierStokesSolver \<Rightarrow> NavierStokesSolver outcome" where
  "PetscPrintf msg s = Return 0 (s\<lparr>printed := printed s @ [msg]\<rparr>)"

subsection \<open>The constructor\<close>

text \<open>
  \<open>NavierStokesSolver(directory, cartesianMesh, flowDescription, simulationParameters)\<close>:
  stores the parameters, sets \<open>timeStep\<close> to \<open>simParams->startStep\<close> and the handles to
  \<open>PETSC_NULL\<close>. The member \<open>lambda\<close> is the one handle the constructor does not assign:
  its value is indeterminate and is an argument of the model.
\<close>

definition NavierStokesSolver_new ::
  "string \<Rightarrow> SimulationParameters \<Rightarrow> Vec option \<Rightarrow> NavierStokesSolver" where
  "NavierStokesSolver_new directory simulationParameters indeterminate =
     \<lparr> caseFolder = directory,
       simParams = simulationParameters,
       timeStep = startStep simulationParameters,
       qxLocal = None, qyLocal = None, qzLocal = None,
       H = None, rn = None, RInv = None, MHat = None, BN = None,
       bc1 = None, rhs1 = None, r2 = None, rhs2 = None, temp = None,
       q = None, qStar = None, lambda = indeterminate,
       A = None, QT = None, BNQ = None, QTBNQ = None,
       ksp1 = None, ksp2 = None,
       printed = [], history = [] \<rparr>"

subsection \<open>Right-hand sides\<close>

text \<open>
  \<^verbatim>\<open>ierr = VecWAXPY(rhs1, 1.0, rn, bc1); CHKERRQ(ierr);\<close>
  \<^verbatim>\<open>ierr = VecPointwiseMult(rhs1, MHat, rhs1); CHKERRQ(ierr);\<close>
\<close>

definition generateRHS1 :: "NavierStokesSolver \<Rightarrow> NavierStokesSolver outcome" where
  "generateRHS1 s0 =
     (let s = enter M_generateRHS1 s0 in
      case VecWAXPY (rhs1 s) 1 (rn s) (bc1 s) of
        Inl ierr \<Rightarrow> Return ierr s
      | Inr w \<Rightarrow>
          (let s = s\<lparr>rhs1 := Some w\<rparr> in
           case VecPointwiseMult (rhs1 s) (MHat s) (rhs1 s) of
             Inl ierr \<Rightarrow> Return ierr s
           | Inr w \<Rightarrow> Return 0 (s\<lparr>rhs1 := Some w\<rparr>)))"

text \<open>
  \<^verbatim>\<open>ierr = VecScale(r2, -1.0); CHKERRQ(ierr);\<close>
  \<^verbatim>\<open>ierr = MatMultAdd(QT, qStar, r2, rhs2); CHKERRQ(ierr);\<close>
\<close>

definition generateRHS2 :: "NavierStokesSolver \<Rightarrow> NavierStokesSolver outcome" where
  "generateRHS2 s0 =
     (let s = enter M_generateRHS2 s0 in
      case VecScale (r2 s) (- 1) of
        Inl ierr \<Rightarrow> Return ierr s
      | Inr x \<Rightarrow>
          (let s = s\<lparr>r2 := Some x\<rparr> in
           case MatMultAdd (QT s) (qStar s) (r2 s) (rhs2 s) of
             Inl ierr \<Rightarrow> Return ierr s
           | Inr z \<Rightarrow> Return 0 (s\<lparr>rhs2 := Some z\<rparr>)))"

subsection \<open>The two linear solves\<close>

text \<open>\<open>KSPSolve(ksp1, rhs1, qStar)\<close> on the solver object.\<close>

definition KSPSolve1 :: "NavierStokesSolver \<Rightarrow> NavierStokesSolver outcome" where
  "KSPSolve1 s =
     (case KSPSolve (ksp1 s) (rhs1 s) (qStar s) of
        (ierr, ksp, x) \<Rightarrow> Return ierr (s\<lparr>ksp1 := ksp, qStar := x\<rparr>))"

text \<open>\<open>KSPSolve(ksp2, rhs2, lambda)\<close> on the solver object.\<close>

definition KSPSolve2 :: "NavierStokesSolver \<Rightarrow> NavierStokesSolver outcome" where
  "KSPSolve2 s =
     (case KSPSolve (ksp2 s) (rhs2 s) (lambda s) of
        (ierr, ksp, x) \<Rightarrow> Return ierr (s\<lparr>ksp2 := ksp, lambda := x\<rparr>))"

definition velocity_diverged :: "KSPConvergedReason \<Rightarrow> string" where
  "velocity_diverged reason =
     ''Velocity solve diverged due to reason: '' @ format_d reason @ [CHR 0x0A]"

definition poisson_diverged :: "KSPConvergedReason \<Rightarrow> string" where
  "poisson_diverged reason =
     ''Poisson solve diverged due to reason: '' @ format_d reason @ [CHR 0x0A]"

definition solveIntermediateVelocity :: "NavierStokesSolver \<Rightarrow> NavierStokesSolver outcome" where
  "solveIntermediateVelocity s0 =
     CHKERRQ (PetscLogStagePush stageSolveVelocitySystem (enter M_solveIntermediateVelocity s0)) (\<lambda>s.
     CHKERRQ (KSPSolve1 s) (\<lambda>s.
     CHKERRQ (PetscLogStagePop s) (\<lambda>s.
     case KSPGetConvergedReason (ksp1 s) of
       Inl ierr \<Rightarrow> Return ierr s
     | Inr reason \<Rightarrow>
         if reason < 0
         then CHKERRQ (PetscPrintf (velocity_diverged reason) s) (\<lambda>s. Exit 0 s)
         else Return 0 s)))"

definition solvePoissonSystem :: "NavierStokesSolver \<Rightarrow> NavierStokesSolver outcome" where
  "solvePoissonSystem s0 =
     CHKERRQ (PetscLogStagePush stageSolvePoissonSystem (enter M_solvePoissonSystem s0)) (\<lambda>s.
     CHKERRQ (KSPSolve2 s) (\<lambda>s.
     CHKERRQ (PetscLogStagePop s) (\<lambda>s.
     case KSPGetConvergedReason (ksp2 s) of
       Inl ierr \<Rightarrow> Return ierr s
     | Inr reason \<Rightarrow>
         if reason < 0
         then CHKERRQ (PetscPrintf (poisson_diverged reason) s) (\<lambda>s. Exit 0 s)
         else Return 0 s)))"

subsection \<open>The projection\<close>

text \<open>
  \<^verbatim>\<open>ierr = MatMult(BNQ, lambda, temp); CHKERRQ(ierr);\<close>
  \<^verbatim>\<open>ierr = VecWAXPY(q, -1.0, temp, qStar); CHKERRQ(ierr);\<close>
\<close>

definition projectionStep :: "NavierStokesSolver \<Rightarrow> NavierStokesSolver outcome" where
  "projectionStep s0 =
     (let s = enter M_projectionStep s0 in
      case MatMult (BNQ s) (lambda s) (temp s) of
        Inl ierr \<Rightarrow> Return ierr s
      | Inr y \<Rightarrow>
          (let s = s\<lparr>temp := Some y\<rparr> in
           case VecWAXPY (q s) (- 1) (temp s) (qStar s) of
             Inl ierr \<Rightarrow> Return ierr s
           | Inr w \<Rightarrow> Return 0 (s\<lparr>q := Some w\<rparr>)))"

subsection \<open>Predicates of the driver loop\<close>

text \<open>\<^verbatim>\<open>return (timeStep % simParams->nsave == 0)? PETSC_TRUE : PETSC_FALSE;\<close>\<close>

definition savePoint :: "NavierStokesSolver \<Rightarrow> fault + bool" where
  "savePoint s =
     (case PetscInt_rem (timeStep s) (nsave (simParams s)) of
        Inl f \<Rightarrow> Inl f
      | Inr r \<Rightarrow> Inr (r = 0))"

text \<open>\<^verbatim>\<open>return (timeStep >= simParams->startStep+simParams->nt)? PETSC_TRUE : PETSC_FALSE;\<close>\<close>

definition finished :: "NavierStokesSolver \<Rightarrow> fault + bool" where
  "finished s =
     (case PetscInt_add (startStep (simParams s)) (nt (simParams s)) of
        Inl f \<Rightarrow> Inl f
      | Inr e \<Rightarrow> Inr (e \<le>s timeStep s))"

subsection \<open>The numerical kernels\<close>

text \<open>
  \<open>calculateExplicitTerms\<close>, \<open>updateBoundaryGhosts\<close>, \<open>generateBC1\<close> and \<open>generateR2\<close>
  are defined in \<open>inline/*.inl\<close>; \<open>generateR2\<close> is virtual and differs between the solver
  variants. What each one computes is a function of the solver (the mesh and the flow
  description are immutable and part of that function); what each one writes is taken from
  the description of the time step.
\<close>

record Kernels =
  explicitTerms :: "NavierStokesSolver \<Rightarrow> PetscErrorCode \<times> Vec option \<times> Vec option"
  boundaryGhosts ::
    "NavierStokesSolver \<Rightarrow> PetscErrorCode \<times> Vec option \<times> Vec option \<times> Vec option"
  boundaryTerms :: "NavierStokesSolver \<Rightarrow> PetscErrorCode \<times> Vec option"
  constraintResidual :: "NavierStokesSolver \<Rightarrow> PetscErrorCode \<times> Vec option"

text \<open>Modelled from the spec: \<open>calculateExplicitTerms\<close> (\<open>inline/calculateExplicitTerms.inl\<close>
  is missing). "Evaluate explicit advection/diffusion contribution into \<open>H\<close>/\<open>rn\<close> using the
  current \<open>q\<close> and ghost-exchanged boundary values."\<close>

definition calculateExplicitTerms :: "Kernels \<Rightarrow> NavierStokesSolver \<Rightarrow> NavierStokesSolver outcome" where
  "calculateExplicitTerms K s0 =
     (let s = enter M_calculateExplicitTerms s0 in
      case explicitTerms K s of
        (ierr, h, r) \<Rightarrow> Return ierr (s\<lparr>H := h, rn := r\<rparr>))"

text \<open>Modelled from the spec: \<open>updateBoundaryGhosts\<close> (\<open>inline/updateBoundaryGhosts.inl\<close> is
  missing). "Refresh ghost/boundary values for the next evaluation": the values live in the
  "ghost-exchanged local copies per velocity component used for explicit-term stencils".\<close>

definition updateBoundaryGhosts :: "Kernels \<Rightarrow> NavierStokesSolver \<Rightarrow> NavierStokesSolver outcome" where
  "updateBoundaryGhosts K s0 =
     (let s = enter M_updateBoundaryGhosts s0 in
      case boundaryGhosts K s of
        (ierr, gx, gy, gz) \<Rightarrow> Return ierr (s\<lparr>qxLocal := gx, qyLocal := gy, qzLocal := gz\<rparr>))"

text \<open>Modelled from the spec: \<open>generateBC1\<close> (\<open>inline/generateBC1.inl\<close> is missing).
  "Assemble boundary-condition contribution vector \<open>bc1\<close> from current boundary-condition
  configuration."\<close>

definition generateBC1 :: "Kernels \<Rightarrow> NavierStokesSolver \<Rightarrow> NavierStokesSolver outcome" where
  "generateBC1 K s0 =
     (let s = enter M_generateBC1 s0 in
      case boundaryTerms K s of
        (ierr, b) \<Rightarrow> Return ierr (s\<lparr>bc1 := b\<rparr>))"

text \<open>Modelled from the spec: \<open>generateR2\<close> (\<open>inline/generateR2.inl\<close> and the overriding
  definitions of the derived solvers are missing). "Assemble variant-specific \<open>r2\<close>
  (boundary/no-slip residual; zero vector for the plain Navier-Stokes variant, interpolated
  boundary-velocity residual for immersed-boundary variants)."\<close>

definition generateR2 :: "Kernels \<Rightarrow> NavierStokesSolver \<Rightarrow> NavierStokesSolver outcome" where
  "generateR2 K s0 =
     (let s = enter M_generateR2 s0 in
      case constraintResidual K s of
        (ierr, r) \<Rightarrow> Return ierr (s\<lparr>r2 := r\<rparr>))"

subsection \<open>One time step\<close>

text \<open>\<open>timeStep++\<close>\<close>

definition increment_timeStep :: "NavierStokesSolver \<Rightarrow> NavierStokesSolver outcome" where
  "increment_timeStep s =
     (case PetscInt_incr (timeStep s) of
        Inl f \<Rightarrow> Undefined f
      | Inr t \<Rightarrow> Return 0 (s\<lparr>timeStep := t\<rparr>))"

definition stepTime :: "Kernels \<Rightarrow> NavierStokesSolver \<Rightarrow> NavierStokesSolver outcome" where
  "stepTime K s0 =
     CHKERRQ (PetscLogStagePush stageRHSVelocitySystem s0) (\<lambda>s.
     CHKERRQ (calculateExplicitTerms K s) (\<lambda>s.
     CHKERRQ (updateBoundaryGhosts K s) (\<lambda>s.
     CHKERRQ (generateBC1 K s) (\<lambda>s.
     CHKERRQ (generateRHS1 s) (\<lambda>s.
     CHKERRQ (PetscLogStagePop s) (\<lambda>s.
     CHKERRQ (solveIntermediateVelocity s) (\<lambda>s.
     CHKERRQ (PetscLogStagePush stageRHSPoissonSystem s) (\<lambda>s.
     CHKERRQ (generateR2 K s) (\<lambda>s.
     CHKERRQ (generateRHS2 s) (\<lambda>s.
     CHKERRQ (PetscLogStagePop s) (\<lambda>s.
     CHKERRQ (solvePoissonSystem s) (\<lambda>s.
     CHKERRQ (PetscLogStagePush stageProjectionStep s) (\<lambda>s.
     CHKERRQ (projectionStep s) (\<lambda>s.
     CHKERRQ (PetscLogStagePop s) (\<lambda>s.
     increment_timeStep s)))))))))))))))"

text \<open>\<open>n\<close> calls of \<open>stepTime\<close> in a row, as the driver makes them: a call that does not
  return 0 ends the run.\<close>

fun stepTimes :: "Kernels \<Rightarrow> nat \<Rightarrow> NavierStokesSolver \<Rightarrow> NavierStokesSolver outcome" where
  "stepTimes K 0 s = Return 0 s"
| "stepTimes K (Suc n) s = CHKERRQ (stepTime K s) (stepTimes K n)"

text \<open>The methods entered, among the events of a history.\<close>

fun calls :: "event list \<Rightarrow> routine list" where
  "calls [] = []"
| "calls (Call m # es) = m # calls es"
| "calls (StagePush st # es) = calls es"
| "calls (StagePop # es) = calls es"

text \<open>The events one complete time step adds to the history.\<close>

definition step_events :: "event list" where
  "step_events =
     [StagePush stageRHSVelocitySystem,
      Call M_calculateExplicitTerms, Call M_updateBoundaryGhosts, Call M_generateBC1,
      Call M_generateRHS1, StagePop,
      Call M_solveIntermediateVelocity, StagePush stageSolveVelocitySystem, StagePop,
      StagePush stageRHSPoissonSystem,
      Call M_generateR2, Call M_generateRHS2, StagePop,
      Call M_solvePoissonSystem, StagePush stageSolvePoissonSystem, StagePop,
      StagePush stageProjectionStep, Call M_projectionStep, StagePop]"

subsection \<open>Counting non-zeros\<close>

text \<open>
  \<^verbatim>\<open>for(size_t i=0; i<numCols; i++)\<close>
  \<^verbatim>\<open>  (cols[i]>=rowStart && cols[i]<rowEnd)? d_nnz++ : o_nnz++;\<close>
  The array \<open>cols\<close> is a list; reading past its end is undefined behaviour. The two
  counters are distinct variables outside the array.
\<close>

function countNumNonZeros_loop ::
  "PetscInt list \<Rightarrow> nat \<Rightarrow> PetscInt \<Rightarrow> PetscInt \<Rightarrow> nat \<Rightarrow> PetscInt \<Rightarrow> PetscInt
   \<Rightarrow> fault + PetscInt \<times> PetscInt" where
  "countNumNonZeros_loop cols numCols rowStart rowEnd i d_nnz o_nnz =
     (if i < numCols then
        (if i < length cols then
           (if rowStart \<le>s cols ! i \<and> cols ! i <s rowEnd
            then (case PetscInt_incr d_nnz of
                    Inl f \<Rightarrow> Inl f
                  | Inr d \<Rightarrow> countNumNonZeros_loop cols numCols rowStart rowEnd (Suc i) d o_nnz)
            else (case PetscInt_incr o_nnz of
                    Inl f \<Rightarrow> Inl f
                  | Inr o' \<Rightarrow> countNumNonZeros_loop cols numCols rowStart rowEnd (Suc i) d_nnz o'))
         else Inl OutOfBounds)
      else Inr (d_nnz, o_nnz))"
  by pat_completeness auto
termination
  by (relation "measure (\<lambda>(cols, numCols, rowStart, rowEnd, i, d_nnz, o_nnz). numCols - i)") auto

declare countNumNonZeros_loop.simps [simp del]

text \<open>The routine: \<open>this\<close>, the arguments, and the values the two output references hold
  on entry. \<open>d_nnz = 0; o_nnz = 0;\<close> and the loop.\<close>

definition countNumNonZeros ::
  "NavierStokesSolver \<Rightarrow> PetscInt list \<Rightarrow> nat \<Rightarrow> PetscInt \<Rightarrow> PetscInt \<Rightarrow> PetscInt \<Rightarrow> PetscInt
   \<Rightarrow> fault + PetscInt \<times> PetscInt" where
  "countNumNonZeros this cols numCols rowStart rowEnd d_nnz o_nnz =
     (let d_nnz = 0; o_nnz = 0
      in countNumNonZeros_loop cols numCols rowStart rowEnd 0 d_nnz o_nnz)"

text \<open>Membership of a column index in the row range \<open>[rowStart, rowEnd)\<close>.\<close>

definition in_rows :: "PetscInt \<Rightarrow> PetscInt \<Rightarrow> PetscInt \<Rightarrow> bool" where
  "in_rows rowStart rowEnd c = (rowStart \<le>s c \<and> c <s rowEnd)"

text \<open>The solver an outcome leaves behind, and whether the process exited.\<close>

fun state_of :: "'s outcome \<Rightarrow> 's option" where
  "state_of (Return ierr s) = Some s"
| "state_of (Exit status s) = Some s"
| "state_of (Undefined f) = None"

fun exited :: "'s outcome \<Rightarrow> bool" where
  "exited (Return ierr s) = False"
| "exited (Exit status s) = True"
| "exited (Undefined f) = False"

text \<open>The component \<open>sel\<close> of the solver is the same after the outcome as in \<open>s\<close>.\<close>

fun unchanged_in :: "('s \<Rightarrow> 'a) \<Rightarrow> 's \<Rightarrow> 's outcome \<Rightarrow> bool" where
  "unchanged_in sel s (Return ierr s') = (sel s' = sel s)"
| "unchanged_in sel s (Exit status s') = (sel s' = sel s)"
| "unchanged_in sel s (Undefined f) = True"

text \<open>The same, for the outcomes other than a return of 0.\<close>

fun unchanged_unless_done :: "('s \<Rightarrow> 'a) \<Rightarrow> 's \<Rightarrow> 's outcome \<Rightarrow> bool" where
  "unchanged_unless_done sel s (Return ierr s') = (ierr \<noteq> 0 \<longrightarrow> sel s' = sel s)"
| "unchanged_unless_done sel s (Exit status s') = (sel s' = sel s)"
| "unchanged_unless_done sel s (Undefined f) = True"

text \<open>
  The outcome has added events to the history of \<open>s\<close> in the order of \<open>evs\<close>: all of them
  when 0 is returned, an initial part of them otherwise.
\<close>

definition added_events :: "NavierStokesSolver \<Rightarrow> NavierStokesSolver \<Rightarrow> event list" where
  "added_events s s' = drop (length (history s)) (history s')"

fun follows :: "event list \<Rightarrow> NavierStokesSolver \<Rightarrow> NavierStokesSolver outcome \<Rightarrow> bool" where
  "follows evs s (Return ierr s') =
     (prefix (history s) (history s') \<and>
      (if ierr = 0 then added_events s s' = evs else prefix (added_events s s') evs))"
| "follows evs s (Exit status s') =
     (prefix (history s) (history s') \<and> prefix (added_events s s') evs)"
| "follows evs s (Undefined f) = True"

text \<open>Observations of an outcome: the routines entered so far, the step counter, the
  messages printed, and the answer of \<open>finished()\<close> in the solver it leaves.\<close>

definition calls_made :: "NavierStokesSolver outcome \<Rightarrow> routine list" where
  "calls_made out = (case state_of out of Some s \<Rightarrow> calls (history s) | None \<Rightarrow> [])"

definition final_timeStep :: "NavierStokesSolver outcome \<Rightarrow> PetscInt option" where
  "final_timeStep out = map_option timeStep (state_of out)"

definition messages :: "NavierStokesSolver outcome \<Rightarrow> string list" where
  "messages out = (case state_of out of Some s \<Rightarrow> printed s | None \<Rightarrow> [])"

definition finished_after :: "NavierStokesSolver outcome \<Rightarrow> (fault + bool) option" where
  "finished_after out = map_option finished (state_of out)"

text \<open>
  The statements of the body of \<open>stepTime\<close>, in program order: the nine sub-steps, the
  profiling calls around them, and the increment of the step counter.
\<close>

definition sub_steps :: "Kernels \<Rightarrow> (NavierStokesSolver \<Rightarrow> NavierStokesSolver outcome) list" where
  "sub_steps K =
     [PetscLogStagePush stageRHSVelocitySystem,
      calculateExplicitTerms K, updateBoundaryGhosts K, generateBC1 K, generateRHS1,
      PetscLogStagePop,
      solveIntermediateVelocity,
      PetscLogStagePush stageRHSPoissonSystem,
      generateR2 K, generateRHS2,
      PetscLogStagePop,
      solvePoissonSystem,
      PetscLogStagePush stageProjectionStep,
      projectionStep,
      PetscLogStagePop,
      increment_timeStep]"

text \<open>An outcome after which the caller goes on: a return of 0.\<close>

fun continues :: "'s outcome \<Rightarrow> bool" where
  "continues (Return ierr s) = (ierr = 0)"
| "continues (Exit status s) = False"
| "continues (Undefined f) = False"

text \<open>
  The state in which statement number \<open>i\<close> of a sequence starts, when the sequence is begun
  in \<open>s\<close>: each statement starts in the state the one before it left, and the state is
  defined only if every earlier statement returned 0.
\<close>

fun reached :: "('s \<Rightarrow> 's outcome) list \<Rightarrow> nat \<Rightarrow> 's \<Rightarrow> 's option" where
  "reached fs 0 s = Some s"
| "reached [] (Suc i) s = None"
| "reached (f # fs) (Suc i) s =
     (case f s of
        Return ierr s' \<Rightarrow> if ierr = 0 then reached fs i s' else None
      | Exit status s' \<Rightarrow> None
      | Undefined u \<Rightarrow> None)"

text \<open>Running a sequence of statements up to the first outcome that is not a return of 0.\<close>

fun in_order :: "('s \<Rightarrow> 's outcome) list \<Rightarrow> 's \<Rightarrow> 's outcome" where
  "in_order [] s = Return 0 s"
| "in_order (f # fs) s = CHKERRQ (f s) (in_order fs)"

subsection \<open>A small instance\<close>

text \<open>
  Two flux unknowns and one pressure unknown. The solver contexts return the right-hand side
  as the solution, with a chosen convergence reason; the kernels return fixed vectors.
\<close>

definition example_params :: SimulationParameters where
  "example_params = \<lparr> startStep = 0, nt = 2, nsave = 10 \<rparr>"

definition example_ksp :: "KSPConvergedReason \<Rightarrow> KSP" where
  "example_ksp reason =
     \<lparr> ksp_apply = (\<lambda>n b x. (0, b, reason)), ksp_solves = 0, ksp_reason = 0 \<rparr>"

definition example_solver ::
  "PetscInt \<Rightarrow> KSPConvergedReason \<Rightarrow> KSPConvergedReason \<Rightarrow> NavierStokesSolver" where
  "example_solver step reason1 reason2 =
     \<lparr> caseFolder = ''case'',
       simParams = example_params,
       timeStep = step,
       qxLocal = Some [0], qyLocal = Some [0], qzLocal = None,
       H = Some [0, 0], rn = Some [0, 0], RInv = Some [1, 1], MHat = Some [2, 4],
       BN = Some [1, 1],
       bc1 = Some [0, 0], rhs1 = Some [0, 0], r2 = Some [0], rhs2 = Some [0],
       temp = Some [0, 0],
       q = Some [1, 1], qStar = Some [0, 0], lambda = Some [0],
       A = Some [[1, 0], [0, 1]], QT = Some [[- 1, 1]], BNQ = Some [[- 1], [1]],
       QTBNQ = Some [[2]],
       ksp1 = Some (example_ksp reason1), ksp2 = Some (example_ksp reason2),
       printed = [], history = [] \<rparr>"

definition example_kernels :: Kernels where
  "example_kernels =
     \<lparr> explicitTerms = (\<lambda>s. (0, Some [0, 0], Some [1, 2])),
       boundaryGhosts = (\<lambda>s. (0, Some [1], Some [1], None)),
       boundaryTerms = (\<lambda>s. (0, Some [3, 4])),
       constraintResidual = (\<lambda>s. (0, Some [5])) \<rparr>"

section \<open>Properties\<close>

subsection \<open>\<open>PetscInt\<close> arithmetic\<close>

lemma sint_word_of_int_PetscInt:
  "PETSC_MIN_INT \<le> r \<Longrightarrow> r \<le> PETSC_MAX_INT \<Longrightarrow> sint (word_of_int r :: PetscInt) = r"
  by (simp add: PETSC_MIN_INT_def PETSC_MAX_INT_def sint_sbintrunc' signed_take_bit_int_eq_self)

lemma sint_PetscInt_bounds: "PETSC_MIN_INT \<le> sint (a::PetscInt) \<and> sint a \<le> PETSC_MAX_INT"
  using sint_ge [of a] sint_lt [of a] by (simp add: PETSC_MIN_INT_def PETSC_MAX_INT_def)

lemma sint_eq_0_PetscInt: "(sint (a::PetscInt) = 0) = (a = 0)"
  by (simp add: signed_eq_0_iff)

lemma smod_zero_iff: "(a smod b = 0) = ((b::int) dvd a)"
proof -
  have "(a smod b = 0) = (\<bar>a\<bar> mod \<bar>b\<bar> = 0)"
    by (cases "a = 0") (simp_all add: signed_modulo_int_def sgn_if)
  also have "\<dots> = (\<bar>b\<bar> dvd \<bar>a\<bar>)"
    by (simp add: dvd_eq_mod_eq_0)
  also have "\<dots> = (b dvd a)"
    by simp
  finally show ?thesis .
qed

text \<open>The truncating remainder lies between zero and the dividend.\<close>

lemma smod_between:
  "(0 \<le> (a::int) \<longrightarrow> 0 \<le> a smod b \<and> a smod b \<le> a) \<and> (a \<le> 0 \<longrightarrow> a \<le> a smod b \<and> a smod b \<le> 0)"
proof -
  have le: "\<bar>a\<bar> mod \<bar>b\<bar> \<le> \<bar>a\<bar>"
    by (rule zmod_le_nonneg_dividend) simp
  have ge: "0 \<le> \<bar>a\<bar> mod \<bar>b\<bar>"
    by (cases "b = 0") simp_all
  consider "a = 0" | "0 < a" | "a < 0" by linarith
  then show ?thesis
  proof cases
    case 1
    then show ?thesis by (simp add: signed_modulo_int_def)
  next
    case 2
    then have "a smod b = \<bar>a\<bar> mod \<bar>b\<bar>" by (simp add: signed_modulo_int_def)
    with le ge 2 show ?thesis by linarith
  next
    case 3
    then have "a smod b = - (\<bar>a\<bar> mod \<bar>b\<bar>)" by (simp add: signed_modulo_int_def)
    with le ge 3 show ?thesis by linarith
  qed
qed

lemma PetscInt_rem_zero_iff:
  assumes "sint b \<noteq> 0" and "\<not> (sint a = PETSC_MIN_INT \<and> sint b = - 1)"
  shows "PetscInt_rem a b = Inr (word_of_int (sint a smod sint b))
         \<and> ((word_of_int (sint a smod sint b) :: PetscInt) = 0) = (sint b dvd sint a)"
proof -
  let ?m = "sint a smod sint b"
  from smod_between [of "sint a" "sint b"] sint_PetscInt_bounds [of a]
  have "PETSC_MIN_INT \<le> ?m" "?m \<le> PETSC_MAX_INT"
    unfolding PETSC_MIN_INT_def PETSC_MAX_INT_def by linarith+
  then have s: "sint (word_of_int ?m :: PetscInt) = ?m"
    by (rule sint_word_of_int_PetscInt)
  have z: "((word_of_int ?m :: PetscInt) = 0) = (?m = 0)"
    using s sint_eq_0_PetscInt [of "word_of_int ?m"] by simp
  have "PetscInt_rem a b = Inr (word_of_int ?m)"
    using assms by (simp add: PetscInt_rem_def)
  moreover have "(?m = 0) = (sint b dvd sint a)"
    by (rule smod_zero_iff)
  ultimately show ?thesis using z by simp
qed

lemma PetscInt_rem_DivisionByZero:
  "(PetscInt_rem a b = Inl DivisionByZero) = (b = 0)"
  by (simp add: PetscInt_rem_def sint_eq_0_PetscInt)

lemma PetscInt_incr_Inr:
  "sint a < PETSC_MAX_INT \<Longrightarrow> PetscInt_incr a = Inr (a + 1) \<and> sint (a + 1) = sint a + 1"
proof -
  assume lt: "sint a < PETSC_MAX_INT"
  with sint_PetscInt_bounds [of a]
  have r: "PETSC_MIN_INT \<le> sint a + 1" "sint a + 1 \<le> PETSC_MAX_INT"
    by (simp_all add: PETSC_MIN_INT_def PETSC_MAX_INT_def)
  have w: "(word_of_int (sint a + 1) :: PetscInt) = a + 1"
    by simp
  from r have "sint (word_of_int (sint a + 1) :: PetscInt) = sint a + 1"
    by (rule sint_word_of_int_PetscInt)
  with r w show ?thesis
    by (simp add: PetscInt_incr_def signed_result_def)
qed

lemma PetscInt_incr_cases:
  "PetscInt_incr a = (if sint a < PETSC_MAX_INT then Inr (a + 1) else Inl SignedOverflow)"
proof (cases "sint a < PETSC_MAX_INT")
  case True
  then show ?thesis by (simp add: PetscInt_incr_Inr)
next
  case False
  then show ?thesis
    by (simp add: PetscInt_incr_def signed_result_def)
qed

subsection \<open>The save-point predicate\<close>

text \<open>
  C8. For a positive save interval \<open>nsave = m\<close> and a non-negative step counter,
  \<open>savePoint()\<close> returns true exactly when \<open>timeStep\<close> is a multiple of \<open>m\<close> (step 0
  included) and false at every other step index.
\<close>

theorem savePoint_multiples:
  assumes "0 < sint (nsave (simParams s))" and "0 \<le> sint (timeStep s)"
  shows "savePoint s = Inr (sint (nsave (simParams s)) dvd sint (timeStep s))"
proof -
  from assms have "sint (nsave (simParams s)) \<noteq> 0"
    and "\<not> (sint (timeStep s) = PETSC_MIN_INT \<and> sint (nsave (simParams s)) = - 1)"
    by simp_all
  from PetscInt_rem_zero_iff [OF this] show ?thesis
    by (simp add: savePoint_def)
qed

theorem savePoint_multiples_witness:
  "savePoint (example_solver 20 2 2) = Inr True \<and> savePoint (example_solver 15 2 2) = Inr False"
  using savePoint_multiples [of "example_solver 20 2 2"]
    savePoint_multiples [of "example_solver 15 2 2"]
  by (simp add: example_solver_def example_params_def)

text \<open>
  C10. \<open>savePoint()\<close> evaluates \<open>timeStep % nsave\<close> with no guard on \<open>nsave\<close>: with
  \<open>nsave > 0\<close> the remainder, and so \<open>savePoint\<close>, is defined for every step counter; the
  division by zero is reached exactly when \<open>nsave = 0\<close>.
\<close>

theorem savePoint_precondition:
  "(0 < sint (nsave (simParams s)) \<longrightarrow> (\<exists>b. savePoint s = Inr b))
   \<and> (savePoint s = Inl DivisionByZero \<longleftrightarrow> nsave (simParams s) = 0)"
proof (intro conjI impI)
  assume pos: "0 < sint (nsave (simParams s))"
  then have "sint (nsave (simParams s)) \<noteq> 0"
    and "\<not> (sint (timeStep s) = PETSC_MIN_INT \<and> sint (nsave (simParams s)) = - 1)"
    by simp_all
  from PetscInt_rem_zero_iff [OF this] show "\<exists>b. savePoint s = Inr b"
    by (simp add: savePoint_def)
next
  have "(savePoint s = Inl DivisionByZero)
        = (PetscInt_rem (timeStep s) (nsave (simParams s)) = Inl DivisionByZero)"
    by (cases "PetscInt_rem (timeStep s) (nsave (simParams s))") (simp_all add: savePoint_def)
  then show "savePoint s = Inl DivisionByZero \<longleftrightarrow> nsave (simParams s) = 0"
    by (simp add: PetscInt_rem_DivisionByZero)
qed

theorem savePoint_precondition_witness:
  "(\<exists>b. savePoint (example_solver 7 2 2) = Inr b)
   \<and> savePoint ((example_solver 7 2 2)\<lparr>simParams := example_params\<lparr>nsave := 0\<rparr>\<rparr>)
       = Inl DivisionByZero"
  using savePoint_precondition [of "example_solver 7 2 2"]
    savePoint_precondition [of "(example_solver 7 2 2)\<lparr>simParams := example_params\<lparr>nsave := 0\<rparr>\<rparr>"]
  by (simp add: example_solver_def example_params_def)

subsection \<open>Counting non-zeros\<close>

lemma countNumNonZeros_loop_counts:
  assumes "numCols \<le> length cols" and "int numCols \<le> PETSC_MAX_INT"
    and "i \<le> numCols"
    and "sint d = int (length (filter (in_rows rowStart rowEnd) (take i cols)))"
    and "sint e = int (length (filter (\<lambda>c. \<not> in_rows rowStart rowEnd c) (take i cols)))"
  shows "\<exists>d' e'. countNumNonZeros_loop cols numCols rowStart rowEnd i d e = Inr (d', e')
           \<and> sint d' = int (length (filter (in_rows rowStart rowEnd) (take numCols cols)))
           \<and> sint e' = int (length (filter (\<lambda>c. \<not> in_rows rowStart rowEnd c) (take numCols cols)))"
  using assms
proof (induction cols numCols rowStart rowEnd i d e rule: countNumNonZeros_loop.induct)
  case (1 cols numCols rowStart rowEnd i d_nnz o_nnz)
  let ?P = "in_rows rowStart rowEnd"
  show ?case
  proof (cases "i < numCols")
    case False
    with "1.prems" have "i = numCols" by simp
    with "1.prems" show ?thesis
      by (subst countNumNonZeros_loop.simps) simp
  next
    case True
    with "1.prems" have il: "i < length cols" by simp
    have tk: "take (Suc i) cols = take i cols @ [cols ! i]"
      using il by (rule take_Suc_conv_app_nth)
    have le: "length (filter ?P (take i cols)) + length (filter (\<lambda>c. \<not> ?P c) (take i cols)) = i"
      using sum_length_filter_compl [of ?P "take i cols"] il by simp
    show ?thesis
    proof (cases "?P (cols ! i)")
      case inr: True
      from le True "1.prems" have "sint d_nnz < PETSC_MAX_INT" by linarith
      then have inc: "PetscInt_incr d_nnz = Inr (d_nnz + 1)" "sint (d_nnz + 1) = sint d_nnz + 1"
        by (simp_all add: PetscInt_incr_Inr)
      have c: "rowStart \<le>s cols ! i \<and> cols ! i <s rowEnd"
        using inr by (simp add: in_rows_def)
      have "\<exists>d' e'. countNumNonZeros_loop cols numCols rowStart rowEnd (Suc i) (d_nnz + 1) o_nnz = Inr (d', e')
           \<and> sint d' = int (length (filter ?P (take numCols cols)))
           \<and> sint e' = int (length (filter (\<lambda>c. \<not> ?P c) (take numCols cols)))"
        using "1.IH"(1) [OF True il c inc(1)] "1.prems" True inr inc(2) tk
        by simp
      moreover have "countNumNonZeros_loop cols numCols rowStart rowEnd i d_nnz o_nnz
          = countNumNonZeros_loop cols numCols rowStart rowEnd (Suc i) (d_nnz + 1) o_nnz"
        by (subst countNumNonZeros_loop.simps) (simp add: True il c inc(1))
      ultimately show ?thesis by simp
    next
      case outr: False
      from le True "1.prems" have "sint o_nnz < PETSC_MAX_INT" by linarith
      then have inc: "PetscInt_incr o_nnz = Inr (o_nnz + 1)" "sint (o_nnz + 1) = sint o_nnz + 1"
        by (simp_all add: PetscInt_incr_Inr)
      have c: "\<not> (rowStart \<le>s cols ! i \<and> cols ! i <s rowEnd)"
        using outr by (simp add: in_rows_def)
      have "\<exists>d' e'. countNumNonZeros_loop cols numCols rowStart rowEnd (Suc i) d_nnz (o_nnz + 1) = Inr (d', e')
           \<and> sint d' = int (length (filter ?P (take numCols cols)))
           \<and> sint e' = int (length (filter (\<lambda>c. \<not> ?P c) (take numCols cols)))"
        using "1.IH"(2) [OF True il c inc(1)] "1.prems" True outr inc(2) tk
        by simp
      moreover have "countNumNonZeros_loop cols numCols rowStart rowEnd i d_nnz o_nnz
          = countNumNonZeros_loop cols numCols rowStart rowEnd (Suc i) d_nnz (o_nnz + 1)"
        by (subst countNumNonZeros_loop.simps) (simp add: True il c inc(1))
      ultimately show ?thesis by simp
    qed
  qed
qed

text \<open>
  C6. For an array \<open>cols\<close> of at least \<open>numCols\<close> entries (at most \<open>PETSC_MAX_INT\<close> of
  them) and every row range, \<open>countNumNonZeros\<close> sets \<open>d_nnz\<close> to the number of the first
  \<open>numCols\<close> entries \<open>c\<close> with \<open>rowStart \<le> c < rowEnd\<close> and \<open>o_nnz\<close> to the number of the
  remaining ones, so that \<open>d_nnz + o_nnz = numCols\<close>; the result does not depend on the
  solver object nor on what the two output variables held before the call.
\<close>

theorem countNumNonZeros_exact:
  assumes "numCols \<le> length cols" and "int numCols \<le> PETSC_MAX_INT"
  shows "\<exists>d e. countNumNonZeros this cols numCols rowStart rowEnd d_nnz o_nnz = Inr (d, e)
     \<and> sint d = int (length (filter (in_rows rowStart rowEnd) (take numCols cols)))
     \<and> sint e = int (length (filter (\<lambda>c. \<not> in_rows rowStart rowEnd c) (take numCols cols)))
     \<and> sint d + sint e = int numCols
     \<and> countNumNonZeros this' cols numCols rowStart rowEnd d_nnz' o_nnz' = Inr (d, e)"
proof -
  let ?P = "in_rows rowStart rowEnd"
  have "\<exists>d e. countNumNonZeros_loop cols numCols rowStart rowEnd 0 0 0 = Inr (d, e)
           \<and> sint d = int (length (filter ?P (take numCols cols)))
           \<and> sint e = int (length (filter (\<lambda>c. \<not> ?P c) (take numCols cols)))"
    using assms by (intro countNumNonZeros_loop_counts) simp_all
  then obtain d e where r: "countNumNonZeros_loop cols numCols rowStart rowEnd 0 0 0 = Inr (d, e)"
    and d: "sint d = int (length (filter ?P (take numCols cols)))"
    and e: "sint e = int (length (filter (\<lambda>c. \<not> ?P c) (take numCols cols)))"
    by blast
  have "length (filter ?P (take numCols cols)) + length (filter (\<lambda>c. \<not> ?P c) (take numCols cols))
        = numCols"
    using sum_length_filter_compl [of ?P "take numCols cols"] assms(1) by simp
  with d e have "sint d + sint e = int numCols" by linarith
  with r d e show ?thesis
    by (simp add: countNumNonZeros_def)
qed

theorem countNumNonZeros_exact_witness:
  "countNumNonZeros (example_solver 0 2 2) [3, 7, 12, 5] 4 4 10 99 98 = Inr (2, 2)
   \<and> countNumNonZeros (example_solver 5 2 2) [3, 7, 12, 5] 4 4 10 0 1 = Inr (2, 2)"
proof -
  have n: "(4::nat) \<le> length [3, 7, 12, 5 :: PetscInt]" "int 4 \<le> PETSC_MAX_INT"
    by (simp_all add: PETSC_MAX_INT_def)
  have f: "filter (in_rows 4 10) (take 4 [3, 7, 12, 5]) = [7, 5]"
    by (simp add: in_rows_def word_sle_eq word_sless_alt)
  from countNumNonZeros_exact [OF n, of "example_solver 0 2 2" 4 10 99 98 "example_solver 5 2 2" 0 1]
  obtain d e where r: "countNumNonZeros (example_solver 0 2 2) [3, 7, 12, 5] 4 4 10 99 98 = Inr (d, e)"
    "countNumNonZeros (example_solver 5 2 2) [3, 7, 12, 5] 4 4 10 0 1 = Inr (d, e)"
    and "sint d = 2" and "sint d + sint e = 4"
    unfolding f by auto
  then have "sint d = sint (2 :: PetscInt)" "sint e = sint (2 :: PetscInt)" by simp_all
  then have "d = 2" "e = 2" by (simp_all only: word_eq_iff_signed [symmetric])
  with r show ?thesis by simp
qed

subsection \<open>Right-hand sides and projection\<close>

lemma zip_minus_scaled:
  "length xs = length ys \<Longrightarrow>
   map2 (\<lambda>a b. a + b) (map (\<lambda>a. - 1 * a) ys) xs = map2 (\<lambda>a b. a - b) xs (ys :: real list)"
  by (induction xs ys rule: list_induct2) simp_all

lemma length_mat_vec: "length (mat_vec M x) = length M"
  by (simp add: mat_vec_def)

lemma times_minus1_fun: "((*) (- 1 :: real)) = uminus"
  by (rule ext) simp

lemma plus_uminus_fun: "(\<lambda>a::real. (+) (- a)) = (\<lambda>a b. b - a)"
  by (intro ext) simp

text \<open>
  C4. On vectors that are allocated with one common size, \<open>generateRHS1\<close> returns 0 and
  sets every entry \<open>i\<close> of \<open>rhs1\<close> to \<open>MHat[i] * (rn[i] + bc1[i])\<close>; nothing else changes.
\<close>

theorem generateRHS1_entries:
  assumes "rn s = Some r" and "bc1 s = Some b" and "MHat s = Some m" and "rhs1 s = Some w0"
    and "length r = length w0" and "length b = length w0" and "length m = length w0"
  shows "\<exists>w. generateRHS1 s
             = Return 0 (s\<lparr>history := history s @ [Call M_generateRHS1], rhs1 := Some w\<rparr>)
           \<and> length w = length w0
           \<and> (\<forall>i < length w0. w ! i = m ! i * (r ! i + b ! i))"
proof -
  let ?w = "map2 (\<lambda>a b. a * b) m (map2 (\<lambda>a b. 1 * a + b) r b)"
  have "generateRHS1 s = Return 0 (s\<lparr>history := history s @ [Call M_generateRHS1], rhs1 := Some ?w\<rparr>)"
    using assms
    by (simp add: generateRHS1_def enter_def VecWAXPY_def VecPointwiseMult_def)
  moreover have "length ?w = length w0"
    using assms by simp
  moreover have "\<forall>i < length w0. ?w ! i = m ! i * (r ! i + b ! i)"
    using assms by simp
  ultimately show ?thesis by blast
qed

theorem generateRHS1_entries_witness:
  "generateRHS1 ((example_solver 0 2 2)\<lparr>rn := Some [1, 2], bc1 := Some [3, 4]\<rparr>)
     = Return 0 ((example_solver 0 2 2)\<lparr>rn := Some [1, 2], bc1 := Some [3, 4],
          rhs1 := Some [2 * (1 + 3), 4 * (2 + 4)], history := [Call M_generateRHS1]\<rparr>)"
proof -
  let ?s = "(example_solver 0 2 2)\<lparr>rn := Some [1, 2], bc1 := Some [3, 4]\<rparr>"
  have "rn ?s = Some [1, 2]" "bc1 ?s = Some [3, 4]" "MHat ?s = Some [2, 4]" "rhs1 ?s = Some [0, 0]"
    "length [1, 2 :: real] = length [0, 0 :: real]" "length [3, 4 :: real] = length [0, 0 :: real]"
    "length [2, 4 :: real] = length [0, 0 :: real]"
    by (simp_all add: example_solver_def)
  from generateRHS1_entries [OF this]
  obtain w where g: "generateRHS1 ?s = Return 0 (?s\<lparr>history := history ?s @ [Call M_generateRHS1], rhs1 := Some w\<rparr>)"
    and l: "length w = 2" and e: "\<forall>i < 2. w ! i = [2, 4] ! i * ([1, 2] ! i + [3, 4] ! i)"
    by auto
  from e have "w ! 0 = 2 * (1 + 3)" "w ! 1 = 4 * (2 + 4)" by simp_all
  with l have "w = [2 * (1 + 3), 4 * (2 + 4)]"
    by (cases w; cases "tl w"; cases "tl (tl w)") auto
  with g show ?thesis by (simp add: example_solver_def)
qed

text \<open>
  C3. On conforming operands, \<open>generateRHS2\<close> returns 0 and sets \<open>rhs2\<close> to \<open>QT qStar - r2\<close>,
  with \<open>r2\<close> taken at the value it had when \<open>generateRHS2\<close> was called (the call leaves
  \<open>r2\<close> negated).
\<close>

theorem generateRHS2_value:
  assumes "QT s = Some M" and "qStar s = Some x" and "r2 s = Some r" and "rhs2 s = Some z0"
    and "mat_dims M (length z0) (length x)" and "length r = length z0"
  shows "generateRHS2 s
           = Return 0 (s\<lparr>history := history s @ [Call M_generateRHS2],
                         r2 := Some (map uminus r),
                         rhs2 := Some (map2 (\<lambda>a b. a - b) (mat_vec M x) r)\<rparr>)"
proof -
  have "length (mat_vec M x) = length r"
    using assms by (simp add: length_mat_vec mat_dims_def)
  then have eq: "map2 (\<lambda>a b. a + b) (map (\<lambda>a. - 1 * a) r) (mat_vec M x)
             = map2 (\<lambda>a b. a - b) (mat_vec M x) r"
    by (rule zip_minus_scaled)
  have "generateRHS2 s
           = Return 0 (s\<lparr>history := history s @ [Call M_generateRHS2],
                         r2 := Some (map uminus r),
                         rhs2 := Some (map2 (\<lambda>a b. a + b) (map (\<lambda>a. - 1 * a) r) (mat_vec M x))\<rparr>)"
    using assms
    by (simp add: generateRHS2_def enter_def VecScale_def MatMultAdd_def times_minus1_fun)
  then show ?thesis by (simp only: eq)
qed

theorem generateRHS2_value_witness:
  "generateRHS2 ((example_solver 0 2 2)\<lparr>qStar := Some [8, 24], r2 := Some [5]\<rparr>)
     = Return 0 ((example_solver 0 2 2)\<lparr>qStar := Some [8, 24], r2 := Some [- 5],
          rhs2 := Some [11], history := [Call M_generateRHS2]\<rparr>)"
proof -
  let ?s = "(example_solver 0 2 2)\<lparr>qStar := Some [8, 24], r2 := Some [5]\<rparr>"
  have "QT ?s = Some [[- 1, 1]]" "qStar ?s = Some [8, 24]" "r2 ?s = Some [5]" "rhs2 ?s = Some [0]"
    "mat_dims [[- 1, 1]] (length [0 :: real]) (length [8, 24 :: real])"
    "length [5 :: real] = length [0 :: real]"
    by (simp_all add: example_solver_def mat_dims_def)
  from generateRHS2_value [OF this] show ?thesis
    by (simp add: example_solver_def mat_vec_def row_times_def)
qed

lemma projectionStep_value_aux:
  assumes "BNQ s = Some M" and "lambda s = Some l" and "temp s = Some t0"
    and "qStar s = Some x" and "q s = Some q0"
    and "mat_dims M (length t0) (length l)" and "length t0 = length q0" and "length x = length q0"
  shows "projectionStep s
           = Return 0 (s\<lparr>history := history s @ [Call M_projectionStep],
                         temp := Some (mat_vec M l),
                         q := Some (map2 (\<lambda>a b. a - b) x (mat_vec M l))\<rparr>)"
proof -
  have len: "length (mat_vec M l) = length q0"
    using assms by (simp add: length_mat_vec mat_dims_def)
  have eq: "map2 (\<lambda>a b. - 1 * a + b) (mat_vec M l) x = map2 (\<lambda>a b. a - b) x (mat_vec M l)"
    by (simp add: zip_commute [of x "mat_vec M l"] case_prod_unfold)
  have "projectionStep s
           = Return 0 (s\<lparr>history := history s @ [Call M_projectionStep],
                         temp := Some (mat_vec M l),
                         q := Some (map2 (\<lambda>a b. - 1 * a + b) (mat_vec M l) x)\<rparr>)"
    using assms len
    by (simp add: projectionStep_def enter_def MatMult_def VecWAXPY_def plus_uminus_fun)
  then show ?thesis by (simp only: eq)
qed


subsection \<open>Sequencing\<close>

lemma CHKERRQ_Return0:
  "(CHKERRQ m k = Return 0 s') = (\<exists>s1. m = Return 0 s1 \<and> k s1 = Return 0 s')"
  by (cases m) (auto simp: CHKERRQ_def)

lemma unchanged_in_cong: "sel s1 = sel s \<Longrightarrow> unchanged_in sel s1 out = unchanged_in sel s out"
  by (cases out) simp_all

lemma unchanged_in_CHKERRQ:
  assumes "unchanged_in sel s m"
    and "\<And>s1. sel s1 = sel s \<Longrightarrow> unchanged_in sel s1 (k s1)"
  shows "unchanged_in sel s (CHKERRQ m k)"
proof (cases m)
  case (Return ierr s1)
  with assms(1) have e: "sel s1 = sel s" by simp
  show ?thesis
  proof (cases "ierr = 0")
    case True
    from assms(2) [OF e] e have "unchanged_in sel s (k s1)"
      by (simp add: unchanged_in_cong [of sel s1 s])
    with Return True show ?thesis by (simp add: CHKERRQ_def)
  next
    case False
    with Return e show ?thesis by (simp add: CHKERRQ_def)
  qed
next
  case (Exit status s1)
  with assms(1) show ?thesis by (simp add: CHKERRQ_def)
next
  case (Undefined f)
  then show ?thesis by (simp add: CHKERRQ_def)
qed

lemma unchanged_unless_done_cong:
  "sel s1 = sel s \<Longrightarrow> unchanged_unless_done sel s1 out = unchanged_unless_done sel s out"
  by (cases out) simp_all

lemma unchanged_unless_done_CHKERRQ:
  assumes "unchanged_in sel s m"
    and "\<And>s1. sel s1 = sel s \<Longrightarrow> unchanged_unless_done sel s1 (k s1)"
  shows "unchanged_unless_done sel s (CHKERRQ m k)"
proof (cases m)
  case (Return ierr s1)
  with assms(1) have e: "sel s1 = sel s" by simp
  show ?thesis
  proof (cases "ierr = 0")
    case True
    from assms(2) [OF e] e have "unchanged_unless_done sel s (k s1)"
      by (simp add: unchanged_unless_done_cong [of sel s1 s])
    with Return True show ?thesis by (simp add: CHKERRQ_def)
  next
    case False
    with Return e show ?thesis by (simp add: CHKERRQ_def)
  qed
next
  case (Exit status s1)
  with assms(1) show ?thesis by (simp add: CHKERRQ_def)
next
  case (Undefined f)
  then show ?thesis by (simp add: CHKERRQ_def)
qed

subsection \<open>What each sub-step leaves unchanged\<close>

lemma PetscLogStagePush_unchanged:
  "unchanged_in q s (PetscLogStagePush st s)" "unchanged_in timeStep s (PetscLogStagePush st s)"
  "unchanged_in simParams s (PetscLogStagePush st s)"
  by (simp_all add: PetscLogStagePush_def)

lemma PetscLogStagePop_unchanged:
  "unchanged_in q s (PetscLogStagePop s)" "unchanged_in timeStep s (PetscLogStagePop s)"
  "unchanged_in simParams s (PetscLogStagePop s)"
  by (simp_all add: PetscLogStagePop_def)

lemma PetscPrintf_unchanged:
  "unchanged_in q s (PetscPrintf msg s)" "unchanged_in timeStep s (PetscPrintf msg s)"
  "unchanged_in simParams s (PetscPrintf msg s)"
  by (simp_all add: PetscPrintf_def)

lemma calculateExplicitTerms_unchanged:
  "unchanged_in q s (calculateExplicitTerms K s)"
  "unchanged_in timeStep s (calculateExplicitTerms K s)"
  "unchanged_in simParams s (calculateExplicitTerms K s)"
  by (simp_all add: calculateExplicitTerms_def enter_def Let_def split: prod.splits)

lemma updateBoundaryGhosts_unchanged:
  "unchanged_in q s (updateBoundaryGhosts K s)"
  "unchanged_in timeStep s (updateBoundaryGhosts K s)"
  "unchanged_in simParams s (updateBoundaryGhosts K s)"
  by (simp_all add: updateBoundaryGhosts_def enter_def Let_def split: prod.splits)

lemma generateBC1_unchanged:
  "unchanged_in q s (generateBC1 K s)"
  "unchanged_in timeStep s (generateBC1 K s)"
  "unchanged_in simParams s (generateBC1 K s)"
  by (simp_all add: generateBC1_def enter_def Let_def split: prod.splits)

lemma generateR2_unchanged:
  "unchanged_in q s (generateR2 K s)"
  "unchanged_in timeStep s (generateR2 K s)"
  "unchanged_in simParams s (generateR2 K s)"
  by (simp_all add: generateR2_def enter_def Let_def split: prod.splits)

lemma generateRHS1_unchanged:
  "unchanged_in q s (generateRHS1 s)"
  "unchanged_in timeStep s (generateRHS1 s)"
  "unchanged_in simParams s (generateRHS1 s)"
  by (simp_all add: generateRHS1_def enter_def Let_def split: sum.splits)

lemma generateRHS2_unchanged:
  "unchanged_in q s (generateRHS2 s)"
  "unchanged_in timeStep s (generateRHS2 s)"
  "unchanged_in simParams s (generateRHS2 s)"
  by (simp_all add: generateRHS2_def enter_def Let_def split: sum.splits)

lemma projectionStep_unchanged:
  "unchanged_in timeStep s (projectionStep s)"
  "unchanged_in simParams s (projectionStep s)"
  by (simp_all add: projectionStep_def enter_def Let_def split: sum.splits)

lemma KSPSolve1_unchanged:
  "unchanged_in q s (KSPSolve1 s)" "unchanged_in timeStep s (KSPSolve1 s)"
  "unchanged_in simParams s (KSPSolve1 s)"
  by (simp_all add: KSPSolve1_def split: prod.splits)

lemma KSPSolve2_unchanged:
  "unchanged_in q s (KSPSolve2 s)" "unchanged_in timeStep s (KSPSolve2 s)"
  "unchanged_in simParams s (KSPSolve2 s)"
  by (simp_all add: KSPSolve2_def split: prod.splits)

lemma diverged_branch_unchanged:
  "unchanged_in q s (CHKERRQ (PetscPrintf msg s) (\<lambda>s. Exit 0 s))"
  "unchanged_in timeStep s (CHKERRQ (PetscPrintf msg s) (\<lambda>s. Exit 0 s))"
  "unchanged_in simParams s (CHKERRQ (PetscPrintf msg s) (\<lambda>s. Exit 0 s))"
  by (simp_all add: PetscPrintf_def CHKERRQ_def)

lemma solveIntermediateVelocity_unchanged:
  "unchanged_in q s (solveIntermediateVelocity s)"
  "unchanged_in timeStep s (solveIntermediateVelocity s)"
  "unchanged_in simParams s (solveIntermediateVelocity s)"
  unfolding solveIntermediateVelocity_def
  by (intro unchanged_in_CHKERRQ;
      simp add: PetscLogStagePush_def enter_def KSPSolve1_unchanged PetscLogStagePop_unchanged
        diverged_branch_unchanged split: sum.splits)+

lemma solvePoissonSystem_unchanged:
  "unchanged_in q s (solvePoissonSystem s)"
  "unchanged_in timeStep s (solvePoissonSystem s)"
  "unchanged_in simParams s (solvePoissonSystem s)"
  unfolding solvePoissonSystem_def
  by (intro unchanged_in_CHKERRQ;
      simp add: PetscLogStagePush_def enter_def KSPSolve2_unchanged PetscLogStagePop_unchanged
        diverged_branch_unchanged split: sum.splits)+


subsection \<open>The order of events\<close>

lemma follows_Return:
  "follows evs s (Return ierr s') =
     (\<exists>p. history s' = history s @ p \<and> (if ierr = 0 then p = evs else prefix p evs))"
  by (auto simp: added_events_def prefix_def)

lemma follows_Exit:
  "follows evs s (Exit status s') = (\<exists>p. history s' = history s @ p \<and> prefix p evs)"
  by (auto simp: added_events_def prefix_def)

declare follows.simps(1,2) [simp del]

lemma follows_CHKERRQ:
  assumes "follows e1 s m"
    and "\<And>s1. history s1 = history s @ e1 \<Longrightarrow> follows e2 s1 (k s1)"
  shows "follows (e1 @ e2) s (CHKERRQ m k)"
proof (cases m)
  case (Return ierr s1)
  show ?thesis
  proof (cases "ierr = 0")
    case True
    with assms(1) Return have h1: "history s1 = history s @ e1"
      by (simp add: follows_Return)
    from assms(2) [OF h1] have f2: "follows e2 s1 (k s1)" .
    have "follows (e1 @ e2) s (k s1)"
    proof (cases "k s1")
      case (Return ierr2 s2)
      with f2 obtain p where "history s2 = history s1 @ p"
        and "if ierr2 = 0 then p = e2 else prefix p e2"
        by (auto simp: follows_Return)
      with h1 have "history s2 = history s @ (e1 @ p)"
        and "if ierr2 = 0 then e1 @ p = e1 @ e2 else prefix (e1 @ p) (e1 @ e2)"
        by (simp_all split: if_splits)
      then show ?thesis unfolding Return follows_Return by blast
    next
      case (Exit status s2)
      with f2 obtain p where "history s2 = history s1 @ p" and "prefix p e2"
        by (auto simp: follows_Exit)
      with h1 have "history s2 = history s @ (e1 @ p)" and "prefix (e1 @ p) (e1 @ e2)"
        by simp_all
      then show ?thesis unfolding Exit follows_Exit by blast
    next
      case (Undefined f)
      then show ?thesis by simp
    qed
    with Return True show ?thesis by (simp add: CHKERRQ_def)
  next
    case False
    with assms(1) Return obtain p where "history s1 = history s @ p" and "prefix p e1"
      by (auto simp: follows_Return)
    then have "history s1 = history s @ p" and "prefix p (e1 @ e2)"
      by (simp_all add: prefix_prefix)
    with False have "follows (e1 @ e2) s (Return ierr s1)"
      unfolding follows_Return by auto
    with Return False show ?thesis by (simp add: CHKERRQ_def)
  qed
next
  case (Exit status s1)
  with assms(1) obtain p where "history s1 = history s @ p" and "prefix p e1"
    by (auto simp: follows_Exit)
  then have "history s1 = history s @ p" and "prefix p (e1 @ e2)"
    by (simp_all add: prefix_prefix)
  then have "follows (e1 @ e2) s (Exit status s1)"
    unfolding follows_Exit by blast
  with Exit show ?thesis by (simp add: CHKERRQ_def)
next
  case (Undefined f)
  then show ?thesis by (simp add: CHKERRQ_def)
qed

lemma follows_basic:
  "follows [StagePush st] s (PetscLogStagePush st s)"
  "follows [Call m, StagePush st] s (PetscLogStagePush st (enter m s))"
  "follows [StagePop] s (PetscLogStagePop s)"
  "follows [] s (PetscPrintf msg s)"
  "follows [] s (KSPSolve1 s)"
  "follows [] s (KSPSolve2 s)"
  "follows [] s (increment_timeStep s)"
  by (simp_all add: follows_Return PetscLogStagePush_def PetscLogStagePop_def PetscPrintf_def
      KSPSolve1_def KSPSolve2_def increment_timeStep_def enter_def split: prod.splits sum.splits)

lemma follows_kernels:
  "follows [Call M_calculateExplicitTerms] s (calculateExplicitTerms K s)"
  "follows [Call M_updateBoundaryGhosts] s (updateBoundaryGhosts K s)"
  "follows [Call M_generateBC1] s (generateBC1 K s)"
  "follows [Call M_generateR2] s (generateR2 K s)"
  by (simp_all add: follows_Return calculateExplicitTerms_def updateBoundaryGhosts_def
      generateBC1_def generateR2_def enter_def Let_def split: prod.splits)

lemma follows_assembly:
  "follows [Call M_generateRHS1] s (generateRHS1 s)"
  "follows [Call M_generateRHS2] s (generateRHS2 s)"
  "follows [Call M_projectionStep] s (projectionStep s)"
  by (simp_all add: follows_Return generateRHS1_def generateRHS2_def projectionStep_def
      enter_def Let_def split: sum.splits)

lemma follows_reason_check:
  "follows [] s (case r of Inl ierr \<Rightarrow> Return ierr s
       | Inr reason \<Rightarrow>
           if reason < 0 then CHKERRQ (PetscPrintf (msg reason) s) (\<lambda>s. Exit 0 s)
           else Return 0 s)"
  by (simp add: follows_Return follows_Exit PetscPrintf_def CHKERRQ_def split: sum.splits)

lemma follows_solveIntermediateVelocity:
  "follows [Call M_solveIntermediateVelocity, StagePush stageSolveVelocitySystem, StagePop] s
     (solveIntermediateVelocity s)"
proof -
  have "follows ([Call M_solveIntermediateVelocity, StagePush stageSolveVelocitySystem]
          @ [] @ [StagePop] @ []) s (solveIntermediateVelocity s)"
    unfolding solveIntermediateVelocity_def
    by (intro follows_CHKERRQ follows_basic follows_reason_check)
  then show ?thesis by simp
qed

lemma follows_solvePoissonSystem:
  "follows [Call M_solvePoissonSystem, StagePush stageSolvePoissonSystem, StagePop] s
     (solvePoissonSystem s)"
proof -
  have "follows ([Call M_solvePoissonSystem, StagePush stageSolvePoissonSystem]
          @ [] @ [StagePop] @ []) s (solvePoissonSystem s)"
    unfolding solvePoissonSystem_def
    by (intro follows_CHKERRQ follows_basic follows_reason_check)
  then show ?thesis by simp
qed

lemma follows_stepTime: "follows step_events s (stepTime K s)"
proof -
  have "follows ([StagePush stageRHSVelocitySystem]
          @ [Call M_calculateExplicitTerms] @ [Call M_updateBoundaryGhosts]
          @ [Call M_generateBC1] @ [Call M_generateRHS1] @ [StagePop]
          @ [Call M_solveIntermediateVelocity, StagePush stageSolveVelocitySystem, StagePop]
          @ [StagePush stageRHSPoissonSystem]
          @ [Call M_generateR2] @ [Call M_generateRHS2] @ [StagePop]
          @ [Call M_solvePoissonSystem, StagePush stageSolvePoissonSystem, StagePop]
          @ [StagePush stageProjectionStep] @ [Call M_projectionStep] @ [StagePop] @ [])
          s (stepTime K s)"
    unfolding stepTime_def
    by (intro follows_CHKERRQ follows_basic follows_kernels follows_assembly
        follows_solveIntermediateVelocity follows_solvePoissonSystem)
  then show ?thesis by (simp add: step_events_def)
qed

lemma unchanged_in_Return: "f = Return ierr s' \<Longrightarrow> unchanged_in sel s f \<Longrightarrow> sel s' = sel s"
  by simp

lemma increment_timeStep_unchanged:
  "unchanged_in q s (increment_timeStep s)" "unchanged_in simParams s (increment_timeStep s)"
  "unchanged_unless_done timeStep s (increment_timeStep s)"
  by (simp_all add: increment_timeStep_def split: sum.splits)

lemma stepTime_simParams: "unchanged_in simParams s (stepTime K s)"
  unfolding stepTime_def
  by (intro unchanged_in_CHKERRQ PetscLogStagePush_unchanged PetscLogStagePop_unchanged
      calculateExplicitTerms_unchanged updateBoundaryGhosts_unchanged generateBC1_unchanged
      generateRHS1_unchanged solveIntermediateVelocity_unchanged generateR2_unchanged
      generateRHS2_unchanged solvePoissonSystem_unchanged projectionStep_unchanged
      increment_timeStep_unchanged)

lemma stepTime_timeStep_unless_done: "unchanged_unless_done timeStep s (stepTime K s)"
  unfolding stepTime_def
  by (intro unchanged_unless_done_CHKERRQ PetscLogStagePush_unchanged PetscLogStagePop_unchanged
      calculateExplicitTerms_unchanged updateBoundaryGhosts_unchanged generateBC1_unchanged
      generateRHS1_unchanged solveIntermediateVelocity_unchanged generateR2_unchanged
      generateRHS2_unchanged solvePoissonSystem_unchanged projectionStep_unchanged
      increment_timeStep_unchanged)

lemma increment_timeStep_Return0:
  "increment_timeStep s = Return 0 s' \<Longrightarrow> sint (timeStep s') = sint (timeStep s) + 1"
  by (auto simp: increment_timeStep_def PetscInt_incr_cases PetscInt_incr_Inr split: if_splits)

lemma stepTime_increments:
  assumes "stepTime K s = Return 0 s'"
  shows "sint (timeStep s') = sint (timeStep s) + 1"
proof -
  from assms obtain a1 a2 a3 a4 a5 a6 a7 a8 a9 a10 a11 a12 a13 a14 a15 where
    c: "PetscLogStagePush stageRHSVelocitySystem s = Return 0 a1"
      "calculateExplicitTerms K a1 = Return 0 a2"
      "updateBoundaryGhosts K a2 = Return 0 a3"
      "generateBC1 K a3 = Return 0 a4"
      "generateRHS1 a4 = Return 0 a5"
      "PetscLogStagePop a5 = Return 0 a6"
      "solveIntermediateVelocity a6 = Return 0 a7"
      "PetscLogStagePush stageRHSPoissonSystem a7 = Return 0 a8"
      "generateR2 K a8 = Return 0 a9"
      "generateRHS2 a9 = Return 0 a10"
      "PetscLogStagePop a10 = Return 0 a11"
      "solvePoissonSystem a11 = Return 0 a12"
      "PetscLogStagePush stageProjectionStep a12 = Return 0 a13"
      "projectionStep a13 = Return 0 a14"
      "PetscLogStagePop a14 = Return 0 a15"
      "increment_timeStep a15 = Return 0 s'"
    unfolding stepTime_def CHKERRQ_Return0 by blast
  have "timeStep a1 = timeStep s"
    by (rule unchanged_in_Return [OF c(1)]) (rule PetscLogStagePush_unchanged)
  moreover have "timeStep a2 = timeStep a1"
    by (rule unchanged_in_Return [OF c(2)]) (rule calculateExplicitTerms_unchanged)
  moreover have "timeStep a3 = timeStep a2"
    by (rule unchanged_in_Return [OF c(3)]) (rule updateBoundaryGhosts_unchanged)
  moreover have "timeStep a4 = timeStep a3"
    by (rule unchanged_in_Return [OF c(4)]) (rule generateBC1_unchanged)
  moreover have "timeStep a5 = timeStep a4"
    by (rule unchanged_in_Return [OF c(5)]) (rule generateRHS1_unchanged)
  moreover have "timeStep a6 = timeStep a5"
    by (rule unchanged_in_Return [OF c(6)]) (rule PetscLogStagePop_unchanged)
  moreover have "timeStep a7 = timeStep a6"
    by (rule unchanged_in_Return [OF c(7)]) (rule solveIntermediateVelocity_unchanged)
  moreover have "timeStep a8 = timeStep a7"
    by (rule unchanged_in_Return [OF c(8)]) (rule PetscLogStagePush_unchanged)
  moreover have "timeStep a9 = timeStep a8"
    by (rule unchanged_in_Return [OF c(9)]) (rule generateR2_unchanged)
  moreover have "timeStep a10 = timeStep a9"
    by (rule unchanged_in_Return [OF c(10)]) (rule generateRHS2_unchanged)
  moreover have "timeStep a11 = timeStep a10"
    by (rule unchanged_in_Return [OF c(11)]) (rule PetscLogStagePop_unchanged)
  moreover have "timeStep a12 = timeStep a11"
    by (rule unchanged_in_Return [OF c(12)]) (rule solvePoissonSystem_unchanged)
  moreover have "timeStep a13 = timeStep a12"
    by (rule unchanged_in_Return [OF c(13)]) (rule PetscLogStagePush_unchanged)
  moreover have "timeStep a14 = timeStep a13"
    by (rule unchanged_in_Return [OF c(14)]) (rule projectionStep_unchanged)
  moreover have "timeStep a15 = timeStep a14"
    by (rule unchanged_in_Return [OF c(15)]) (rule PetscLogStagePop_unchanged)
  ultimately have "timeStep a15 = timeStep s" by simp
  with increment_timeStep_Return0 [OF c(16)] show ?thesis by (simp only:)
qed

lemmas example_defs = example_solver_def example_kernels_def example_ksp_def example_params_def

lemmas step_defs = stepTime_def CHKERRQ_def PetscLogStagePush_def PetscLogStagePop_def
  calculateExplicitTerms_def updateBoundaryGhosts_def generateBC1_def generateR2_def
  generateRHS1_def generateRHS2_def projectionStep_def solveIntermediateVelocity_def
  solvePoissonSystem_def KSPSolve1_def KSPSolve2_def KSPSolve_def KSPGetConvergedReason_def
  PetscPrintf_def enter_def increment_timeStep_def PetscInt_incr_cases
  VecWAXPY_def VecPointwiseMult_def VecScale_def MatMult_def MatMultAdd_def mat_dims_def
  mat_vec_def row_times_def PETSC_MAX_INT_def velocity_diverged_def poisson_diverged_def
  format_d_def

subsection \<open>What a call that returns 0 has done\<close>

lemma stage_Return0:
  "PetscLogStagePush st s = Return 0 s' \<Longrightarrow> s' = s\<lparr>history := history s @ [StagePush st]\<rparr>"
  "PetscLogStagePop s = Return 0 s' \<Longrightarrow> s' = s\<lparr>history := history s @ [StagePop]\<rparr>"
  by (auto simp: PetscLogStagePush_def PetscLogStagePop_def)

lemma kernels_Return0:
  "calculateExplicitTerms K s = Return 0 s' \<Longrightarrow>
     \<exists>h r. s' = s\<lparr>history := history s @ [Call M_calculateExplicitTerms], H := h, rn := r\<rparr>"
  "updateBoundaryGhosts K s = Return 0 s' \<Longrightarrow>
     \<exists>gx gy gz. s' = s\<lparr>history := history s @ [Call M_updateBoundaryGhosts],
        qxLocal := gx, qyLocal := gy, qzLocal := gz\<rparr>"
  "generateBC1 K s = Return 0 s' \<Longrightarrow>
     \<exists>b. s' = s\<lparr>history := history s @ [Call M_generateBC1], bc1 := b\<rparr>"
  "generateR2 K s = Return 0 s' \<Longrightarrow>
     \<exists>r. s' = s\<lparr>history := history s @ [Call M_generateR2], r2 := r\<rparr>"
  by (auto simp: calculateExplicitTerms_def updateBoundaryGhosts_def generateBC1_def
      generateR2_def enter_def Let_def split: prod.splits)

lemma petsc_nonzero [simp]:
  "VecWAXPY w alpha x y \<noteq> Inl 0"
  "VecPointwiseMult w x y \<noteq> Inl 0"
  "VecScale x alpha \<noteq> Inl 0"
  "MatMult mat x y \<noteq> Inl 0"
  "MatMultAdd mat v1 v2 v3 \<noteq> Inl 0"
  "KSPGetConvergedReason ksp \<noteq> Inl 0"
  by (simp_all add: VecWAXPY_def VecPointwiseMult_def VecScale_def MatMult_def MatMultAdd_def
      KSPGetConvergedReason_def PETSC_ERR_ARG_NULL_def PETSC_ERR_ARG_INCOMP_def
      PETSC_ERR_ARG_SIZ_def split: option.splits)

lemma generateRHS1_Return0:
  "generateRHS1 s = Return 0 s' \<Longrightarrow>
     \<exists>w. s' = s\<lparr>history := history s @ [Call M_generateRHS1], rhs1 := Some w\<rparr>"
  by (auto simp: generateRHS1_def enter_def Let_def split: sum.splits)

lemma generateRHS2_Return0:
  "generateRHS2 s = Return 0 s' \<Longrightarrow>
     \<exists>x z. s' = s\<lparr>history := history s @ [Call M_generateRHS2], r2 := Some x, rhs2 := Some z\<rparr>"
  by (auto simp: generateRHS2_def enter_def Let_def split: sum.splits)

lemma KSPSolve_ok:
  "KSPSolve ksp b x = (0, ksp', x') \<Longrightarrow>
     \<exists>k bv xv y r. ksp = Some k \<and> b = Some bv \<and> x = Some xv
       \<and> ksp_apply k (ksp_solves k) bv xv = (0, y, r)
       \<and> ksp' = Some (k\<lparr>ksp_solves := Suc (ksp_solves k), ksp_reason := r\<rparr>) \<and> x' = Some y"
  by (auto simp: KSPSolve_def PETSC_ERR_ARG_NULL_def split: option.splits prod.splits)

lemma solveIntermediateVelocity_Return0:
  assumes "solveIntermediateVelocity s = Return 0 s'"
  shows "\<exists>k b x0 y r. ksp1 s = Some k \<and> rhs1 s = Some b \<and> qStar s = Some x0
       \<and> ksp_apply k (ksp_solves k) b x0 = (0, y, r) \<and> 0 \<le> r
       \<and> s' = s\<lparr>ksp1 := Some (k\<lparr>ksp_solves := Suc (ksp_solves k), ksp_reason := r\<rparr>),
                 qStar := Some y,
                 history := history s @ [Call M_solveIntermediateVelocity,
                   StagePush stageSolveVelocitySystem, StagePop]\<rparr>"
proof -
  let ?s1 = "s\<lparr>history := history s @ [Call M_solveIntermediateVelocity,
                   StagePush stageSolveVelocitySystem]\<rparr>"
  from assms obtain s2 where a: "KSPSolve1 ?s1 = Return 0 s2"
    and b: "(case KSPGetConvergedReason (ksp1 (s2\<lparr>history := history s2 @ [StagePop]\<rparr>)) of
              Inl ierr \<Rightarrow> Return ierr (s2\<lparr>history := history s2 @ [StagePop]\<rparr>)
            | Inr reason \<Rightarrow>
                if reason < 0
                then CHKERRQ (PetscPrintf (velocity_diverged reason)
                       (s2\<lparr>history := history s2 @ [StagePop]\<rparr>)) (\<lambda>s. Exit 0 s)
                else Return 0 (s2\<lparr>history := history s2 @ [StagePop]\<rparr>)) = Return 0 s'"
    by (auto simp: solveIntermediateVelocity_def CHKERRQ_Return0 PetscLogStagePush_def
        PetscLogStagePop_def enter_def)
  from a obtain ksp' x' where k: "KSPSolve (ksp1 s) (rhs1 s) (qStar s) = (0, ksp', x')"
    and s2: "s2 = ?s1\<lparr>ksp1 := ksp', qStar := x'\<rparr>"
    by (auto simp: KSPSolve1_def split: prod.splits)
  from KSPSolve_ok [OF k] obtain k1 bv xv y r where
    f: "ksp1 s = Some k1" "rhs1 s = Some bv" "qStar s = Some xv"
      "ksp_apply k1 (ksp_solves k1) bv xv = (0, y, r)"
      "ksp' = Some (k1\<lparr>ksp_solves := Suc (ksp_solves k1), ksp_reason := r\<rparr>)" "x' = Some y"
    by blast
  from b s2 f have "0 \<le> r \<and> s' = s2\<lparr>history := history s2 @ [StagePop]\<rparr>"
    by (auto simp: KSPGetConvergedReason_def CHKERRQ_def PetscPrintf_def split: if_splits)
  with s2 f show ?thesis by simp
qed

lemma solvePoissonSystem_Return0:
  assumes "solvePoissonSystem s = Return 0 s'"
  shows "\<exists>k b x0 y r. ksp2 s = Some k \<and> rhs2 s = Some b \<and> lambda s = Some x0
       \<and> ksp_apply k (ksp_solves k) b x0 = (0, y, r) \<and> 0 \<le> r
       \<and> s' = s\<lparr>lambda := Some y,
                 ksp2 := Some (k\<lparr>ksp_solves := Suc (ksp_solves k), ksp_reason := r\<rparr>),
                 history := history s @ [Call M_solvePoissonSystem,
                   StagePush stageSolvePoissonSystem, StagePop]\<rparr>"
proof -
  let ?s1 = "s\<lparr>history := history s @ [Call M_solvePoissonSystem,
                   StagePush stageSolvePoissonSystem]\<rparr>"
  from assms obtain s2 where a: "KSPSolve2 ?s1 = Return 0 s2"
    and b: "(case KSPGetConvergedReason (ksp2 (s2\<lparr>history := history s2 @ [StagePop]\<rparr>)) of
              Inl ierr \<Rightarrow> Return ierr (s2\<lparr>history := history s2 @ [StagePop]\<rparr>)
            | Inr reason \<Rightarrow>
                if reason < 0
                then CHKERRQ (PetscPrintf (poisson_diverged reason)
                       (s2\<lparr>history := history s2 @ [StagePop]\<rparr>)) (\<lambda>s. Exit 0 s)
                else Return 0 (s2\<lparr>history := history s2 @ [StagePop]\<rparr>)) = Return 0 s'"
    by (auto simp: solvePoissonSystem_def CHKERRQ_Return0 PetscLogStagePush_def
        PetscLogStagePop_def enter_def)
  from a obtain ksp' x' where k: "KSPSolve (ksp2 s) (rhs2 s) (lambda s) = (0, ksp', x')"
    and s2: "s2 = ?s1\<lparr>ksp2 := ksp', lambda := x'\<rparr>"
    by (auto simp: KSPSolve2_def split: prod.splits)
  from KSPSolve_ok [OF k] obtain k1 bv xv y r where
    f: "ksp2 s = Some k1" "rhs2 s = Some bv" "lambda s = Some xv"
      "ksp_apply k1 (ksp_solves k1) bv xv = (0, y, r)"
      "ksp' = Some (k1\<lparr>ksp_solves := Suc (ksp_solves k1), ksp_reason := r\<rparr>)" "x' = Some y"
    by blast
  from b s2 f have "0 \<le> r \<and> s' = s2\<lparr>history := history s2 @ [StagePop]\<rparr>"
    by (auto simp: KSPGetConvergedReason_def CHKERRQ_def PetscPrintf_def split: if_splits)
  with s2 f show ?thesis by simp
qed

lemma projectionStep_Return0:
  assumes "projectionStep s = Return 0 s'"
  shows "\<exists>M l x. BNQ s = Some M \<and> lambda s = Some l \<and> qStar s = Some x
       \<and> s' = s\<lparr>history := history s @ [Call M_projectionStep],
                 temp := Some (mat_vec M l),
                 q := Some (map2 (\<lambda>a b. a - b) x (mat_vec M l))\<rparr>"
proof -
  from assms obtain M l t0 where m: "BNQ s = Some M" "lambda s = Some l" "temp s = Some t0"
    "mat_dims M (length t0) (length l)"
    by (auto simp: projectionStep_def enter_def Let_def MatMult_def PETSC_ERR_ARG_NULL_def
        PETSC_ERR_ARG_INCOMP_def PETSC_ERR_ARG_SIZ_def
        split: sum.splits option.splits if_splits)
  with assms obtain x q0 where v: "qStar s = Some x" "q s = Some q0"
    "length (mat_vec M l) = length q0" "length x = length q0"
    by (auto simp: projectionStep_def enter_def Let_def MatMult_def VecWAXPY_def
        PETSC_ERR_ARG_NULL_def PETSC_ERR_ARG_INCOMP_def PETSC_ERR_ARG_SIZ_def length_mat_vec
        split: sum.splits option.splits if_splits)
  from m v have "length t0 = length q0"
    by (simp add: length_mat_vec mat_dims_def)
  from projectionStep_value_aux [OF m(1,2,3) v(1,2) m(4) this v(4)] assms m v
  show ?thesis by simp
qed

lemma increment_timeStep_Return0_state:
  "increment_timeStep s = Return 0 s' \<Longrightarrow> \<exists>t. s' = s\<lparr>timeStep := t\<rparr>"
  by (auto simp: increment_timeStep_def split: sum.splits)

lemma stepTime_projection:
  assumes "stepTime K s = Return 0 s'"
  shows "\<exists>k1 b1 x1 y1 r1 k2 b2 x2 y2 r2 M.
      ksp1 s = Some k1 \<and> qStar s = Some x1
    \<and> ksp_apply k1 (ksp_solves k1) b1 x1 = (0, y1, r1) \<and> 0 \<le> r1
    \<and> ksp2 s = Some k2 \<and> lambda s = Some x2
    \<and> ksp_apply k2 (ksp_solves k2) b2 x2 = (0, y2, r2) \<and> 0 \<le> r2
    \<and> BNQ s = Some M \<and> qStar s' = Some y1 \<and> lambda s' = Some y2
    \<and> q s' = Some (map2 (\<lambda>a b. a - b) y1 (mat_vec M y2))"
proof -
  from assms obtain a1 a2 a3 a4 a5 a6 a7 a8 a9 a10 a11 a12 a13 a14 a15 where
    c: "PetscLogStagePush stageRHSVelocitySystem s = Return 0 a1"
      "calculateExplicitTerms K a1 = Return 0 a2"
      "updateBoundaryGhosts K a2 = Return 0 a3"
      "generateBC1 K a3 = Return 0 a4"
      "generateRHS1 a4 = Return 0 a5"
      "PetscLogStagePop a5 = Return 0 a6"
      "solveIntermediateVelocity a6 = Return 0 a7"
      "PetscLogStagePush stageRHSPoissonSystem a7 = Return 0 a8"
      "generateR2 K a8 = Return 0 a9"
      "generateRHS2 a9 = Return 0 a10"
      "PetscLogStagePop a10 = Return 0 a11"
      "solvePoissonSystem a11 = Return 0 a12"
      "PetscLogStagePush stageProjectionStep a12 = Return 0 a13"
      "projectionStep a13 = Return 0 a14"
      "PetscLogStagePop a14 = Return 0 a15"
      "increment_timeStep a15 = Return 0 s'"
    unfolding stepTime_def CHKERRQ_Return0 by blast
  note e1 = stage_Return0(1) [OF c(1)]
  from kernels_Return0(1) [OF c(2)] obtain h r where e2:
    "a2 = a1\<lparr>history := history a1 @ [Call M_calculateExplicitTerms], H := h, rn := r\<rparr>"
    by blast
  from kernels_Return0(2) [OF c(3)] obtain gx gy gz where e3:
    "a3 = a2\<lparr>history := history a2 @ [Call M_updateBoundaryGhosts],
        qxLocal := gx, qyLocal := gy, qzLocal := gz\<rparr>"
    by blast
  from kernels_Return0(3) [OF c(4)] obtain b where e4:
    "a4 = a3\<lparr>history := history a3 @ [Call M_generateBC1], bc1 := b\<rparr>"
    by blast
  from generateRHS1_Return0 [OF c(5)] obtain w where e5:
    "a5 = a4\<lparr>history := history a4 @ [Call M_generateRHS1], rhs1 := Some w\<rparr>"
    by blast
  note e6 = stage_Return0(2) [OF c(6)]
  from solveIntermediateVelocity_Return0 [OF c(7)] obtain k1 b1 x1 y1 r1 where
    v: "ksp1 a6 = Some k1" "qStar a6 = Some x1"
      "ksp_apply k1 (ksp_solves k1) b1 x1 = (0, y1, r1)" "0 \<le> r1"
    and e7: "a7 = a6\<lparr>ksp1 := Some (k1\<lparr>ksp_solves := Suc (ksp_solves k1), ksp_reason := r1\<rparr>),
                 qStar := Some y1,
                 history := history a6 @ [Call M_solveIntermediateVelocity,
                   StagePush stageSolveVelocitySystem, StagePop]\<rparr>"
    by blast
  note e8 = stage_Return0(1) [OF c(8)]
  from kernels_Return0(4) [OF c(9)] obtain rr where e9:
    "a9 = a8\<lparr>history := history a8 @ [Call M_generateR2], r2 := rr\<rparr>"
    by blast
  from generateRHS2_Return0 [OF c(10)] obtain xx zz where e10:
    "a10 = a9\<lparr>history := history a9 @ [Call M_generateRHS2], r2 := Some xx, rhs2 := Some zz\<rparr>"
    by blast
  note e11 = stage_Return0(2) [OF c(11)]
  from solvePoissonSystem_Return0 [OF c(12)] obtain k2 b2 x2 y2 r2 where
    p: "ksp2 a11 = Some k2" "lambda a11 = Some x2"
      "ksp_apply k2 (ksp_solves k2) b2 x2 = (0, y2, r2)" "0 \<le> r2"
    and e12: "a12 = a11\<lparr>lambda := Some y2,
                 ksp2 := Some (k2\<lparr>ksp_solves := Suc (ksp_solves k2), ksp_reason := r2\<rparr>),
                 history := history a11 @ [Call M_solvePoissonSystem,
                   StagePush stageSolvePoissonSystem, StagePop]\<rparr>"
    by blast
  note e13 = stage_Return0(1) [OF c(13)]
  from projectionStep_Return0 [OF c(14)] obtain M l x where
    j: "BNQ a13 = Some M" "lambda a13 = Some l" "qStar a13 = Some x"
    and e14: "a14 = a13\<lparr>history := history a13 @ [Call M_projectionStep],
                 temp := Some (mat_vec M l),
                 q := Some (map2 (\<lambda>a b. a - b) x (mat_vec M l))\<rparr>"
    by blast
  note e15 = stage_Return0(2) [OF c(15)]
  from increment_timeStep_Return0_state [OF c(16)] obtain t where e16: "s' = a15\<lparr>timeStep := t\<rparr>"
    by blast
  have f1: "ksp1 a1 = ksp1 s" "qStar a1 = qStar s" "ksp2 a1 = ksp2 s" "lambda a1 = lambda s" "BNQ a1 = BNQ s"
    by (simp_all add: e1)
  have f2: "ksp1 a2 = ksp1 a1" "qStar a2 = qStar a1" "ksp2 a2 = ksp2 a1" "lambda a2 = lambda a1" "BNQ a2 = BNQ a1"
    by (simp_all add: e2)
  have f3: "ksp1 a3 = ksp1 a2" "qStar a3 = qStar a2" "ksp2 a3 = ksp2 a2" "lambda a3 = lambda a2" "BNQ a3 = BNQ a2"
    by (simp_all add: e3)
  have f4: "ksp1 a4 = ksp1 a3" "qStar a4 = qStar a3" "ksp2 a4 = ksp2 a3" "lambda a4 = lambda a3" "BNQ a4 = BNQ a3"
    by (simp_all add: e4)
  have f5: "ksp1 a5 = ksp1 a4" "qStar a5 = qStar a4" "ksp2 a5 = ksp2 a4" "lambda a5 = lambda a4" "BNQ a5 = BNQ a4"
    by (simp_all add: e5)
  have f6: "ksp1 a6 = ksp1 a5" "qStar a6 = qStar a5" "ksp2 a6 = ksp2 a5" "lambda a6 = lambda a5" "BNQ a6 = BNQ a5"
    by (simp_all add: e6)
  have f7: "qStar a7 = Some y1" "ksp2 a7 = ksp2 a6" "lambda a7 = lambda a6" "BNQ a7 = BNQ a6"
    by (simp_all add: e7)
  have f8: "qStar a8 = qStar a7" "ksp2 a8 = ksp2 a7" "lambda a8 = lambda a7" "BNQ a8 = BNQ a7"
    by (simp_all add: e8)
  have f9: "qStar a9 = qStar a8" "ksp2 a9 = ksp2 a8" "lambda a9 = lambda a8" "BNQ a9 = BNQ a8"
    by (simp_all add: e9)
  have f10: "qStar a10 = qStar a9" "ksp2 a10 = ksp2 a9" "lambda a10 = lambda a9" "BNQ a10 = BNQ a9"
    by (simp_all add: e10)
  have f11: "qStar a11 = qStar a10" "ksp2 a11 = ksp2 a10" "lambda a11 = lambda a10" "BNQ a11 = BNQ a10"
    by (simp_all add: e11)
  have f12: "qStar a12 = qStar a11" "lambda a12 = Some y2" "BNQ a12 = BNQ a11"
    by (simp_all add: e12)
  have f13: "qStar a13 = qStar a12" "lambda a13 = lambda a12" "BNQ a13 = BNQ a12"
    by (simp_all add: e13)
  have f14: "qStar a14 = qStar a13" "lambda a14 = lambda a13"
    "q a14 = Some (map2 (\<lambda>a b. a - b) x (mat_vec M l))"
    by (simp_all add: e14)
  have f15: "qStar a15 = qStar a14" "lambda a15 = lambda a14" "q a15 = q a14"
    by (simp_all add: e15)
  have f16: "qStar s' = qStar a15" "lambda s' = lambda a15" "q s' = q a15"
    by (simp_all add: e16)
  have before1: "ksp1 a6 = ksp1 s" "qStar a6 = qStar s"
    by (simp_all only: f1 f2 f3 f4 f5 f6)
  have before2: "ksp2 a11 = ksp2 s" "lambda a11 = lambda s"
    by (simp_all only: f1 f2 f3 f4 f5 f6 f7 f8 f9 f10 f11)
  have at13: "BNQ a13 = BNQ s" "lambda a13 = Some y2" "qStar a13 = Some y1"
    by (simp_all only: f1 f2 f3 f4 f5 f6 f7 f8 f9 f10 f11 f12 f13)
  have after: "qStar s' = qStar a13" "lambda s' = lambda a13"
    "q s' = Some (map2 (\<lambda>a b. a - b) x (mat_vec M l))"
    by (simp_all only: f14 f15 f16)
  from j at13 have lx: "l = y2" "x = y1" and m: "BNQ s = Some M"
    by simp_all
  from v(1) before1(1) have g1: "ksp1 s = Some k1" by (simp only:)
  from v(2) before1(2) have g2: "qStar s = Some x1" by (simp only:)
  from p(1) before2(1) have g3: "ksp2 s = Some k2" by (simp only:)
  from p(2) before2(2) have g4: "lambda s = Some x2" by (simp only:)
  from after(1) at13(3) have g5: "qStar s' = Some y1" by (simp only:)
  from after(2) at13(2) have g6: "lambda s' = Some y2" by (simp only:)
  from after(3) lx have g7: "q s' = Some (map2 (\<lambda>a b. a - b) y1 (mat_vec M y2))"
    by (simp only:)
  from g1 g2 v(3,4) g3 g4 p(3,4) m g5 g6 g7 show ?thesis by blast
qed

text \<open>
  C2. On conforming operands, \<open>projectionStep\<close> returns 0 and sets the flux vector \<open>q\<close> to
  \<open>qStar - BNQ lambda\<close> (\<open>temp\<close> receives \<open>BNQ lambda\<close>). In a time step that returns 0, the
  \<open>qStar\<close> and \<open>lambda\<close> it uses are the solutions that the two solver contexts returned in
  this step, with non-negative convergence reasons.
\<close>

theorem projectionStep_value:
  "(BNQ s = Some M \<longrightarrow> lambda s = Some l \<longrightarrow> temp s = Some t0 \<longrightarrow> qStar s = Some x
      \<longrightarrow> q s = Some q0 \<longrightarrow> mat_dims M (length t0) (length l) \<longrightarrow> length t0 = length q0
      \<longrightarrow> length x = length q0
      \<longrightarrow> projectionStep s
           = Return 0 (s\<lparr>history := history s @ [Call M_projectionStep],
                         temp := Some (mat_vec M l),
                         q := Some (map2 (\<lambda>a b. a - b) x (mat_vec M l))\<rparr>))
   \<and> (stepTime K u = Return 0 u' \<longrightarrow>
        (\<exists>k1 b1 x1 y1 r1 k2 b2 x2 y2 r2 N.
            ksp1 u = Some k1 \<and> qStar u = Some x1
          \<and> ksp_apply k1 (ksp_solves k1) b1 x1 = (0, y1, r1) \<and> 0 \<le> r1
          \<and> ksp2 u = Some k2 \<and> lambda u = Some x2
          \<and> ksp_apply k2 (ksp_solves k2) b2 x2 = (0, y2, r2) \<and> 0 \<le> r2
          \<and> BNQ u = Some N \<and> qStar u' = Some y1 \<and> lambda u' = Some y2
          \<and> q u' = Some (map2 (\<lambda>a b. a - b) y1 (mat_vec N y2))))"
proof (intro conjI impI)
  assume "BNQ s = Some M" "lambda s = Some l" "temp s = Some t0" "qStar s = Some x"
    "q s = Some q0" "mat_dims M (length t0) (length l)" "length t0 = length q0"
    "length x = length q0"
  then show "projectionStep s
           = Return 0 (s\<lparr>history := history s @ [Call M_projectionStep],
                         temp := Some (mat_vec M l),
                         q := Some (map2 (\<lambda>a b. a - b) x (mat_vec M l))\<rparr>)"
    by (rule projectionStep_value_aux)
next
  assume "stepTime K u = Return 0 u'"
  then show "\<exists>k1 b1 x1 y1 r1 k2 b2 x2 y2 r2 N.
            ksp1 u = Some k1 \<and> qStar u = Some x1
          \<and> ksp_apply k1 (ksp_solves k1) b1 x1 = (0, y1, r1) \<and> 0 \<le> r1
          \<and> ksp2 u = Some k2 \<and> lambda u = Some x2
          \<and> ksp_apply k2 (ksp_solves k2) b2 x2 = (0, y2, r2) \<and> 0 \<le> r2
          \<and> BNQ u = Some N \<and> qStar u' = Some y1 \<and> lambda u' = Some y2
          \<and> q u' = Some (map2 (\<lambda>a b. a - b) y1 (mat_vec N y2))"
    by (rule stepTime_projection)
qed

theorem projectionStep_value_witness:
  "projectionStep ((example_solver 0 2 2)\<lparr>qStar := Some [8, 24], lambda := Some [11]\<rparr>)
     = Return 0 ((example_solver 0 2 2)\<lparr>qStar := Some [8, 24], lambda := Some [11],
          temp := Some [- 11, 11], q := Some [19, 13], history := [Call M_projectionStep]\<rparr>)
   \<and> (\<exists>u'. stepTime example_kernels (example_solver 0 2 2) = Return 0 u'
        \<and> q u' = Some [19, 13]
        \<and> (\<exists>y1 y2. qStar u' = Some y1 \<and> lambda u' = Some y2
              \<and> q u' = Some (map2 (\<lambda>a b. a - b) y1 (mat_vec [[- 1], [1]] y2))))"
proof -
  let ?s = "(example_solver 0 2 2)\<lparr>qStar := Some [8, 24], lambda := Some [11]\<rparr>"
  let ?u = "example_solver 0 2 2"
  have h: "BNQ ?s = Some [[- 1], [1]]" "lambda ?s = Some [11]" "temp ?s = Some [0, 0]"
    "qStar ?s = Some [8, 24]" "q ?s = Some [1, 1]"
    "mat_dims [[- 1], [1]] (length [0, 0 :: real]) (length [11 :: real])"
    "length [0, 0 :: real] = length [1, 1 :: real]" "length [8, 24 :: real] = length [1, 1 :: real]"
    by (simp_all add: example_solver_def mat_dims_def)
  have "\<exists>u'. stepTime example_kernels ?u = Return 0 u' \<and> q u' = Some [19, 13]"
    by (simp add: step_defs example_defs)
  then obtain u' where r: "stepTime example_kernels ?u = Return 0 u'" and qv: "q u' = Some [19, 13]"
    by blast
  note t = projectionStep_value [of ?s "[[- 1], [1]]" "[11]" "[0, 0]" "[8, 24]" "[1, 1]"
      example_kernels ?u u']
  from t h have a: "projectionStep ?s
     = Return 0 (?s\<lparr>history := history ?s @ [Call M_projectionStep],
          temp := Some (mat_vec [[- 1], [1]] [11]),
          q := Some (map2 (\<lambda>a b. a - b) [8, 24] (mat_vec [[- 1], [1]] [11]))\<rparr>)"
    by blast
  from t r obtain y1 y2 N where "BNQ ?u = Some N" "qStar u' = Some y1" "lambda u' = Some y2"
    "q u' = Some (map2 (\<lambda>a b. a - b) y1 (mat_vec N y2))"
    by blast
  then have b: "\<exists>y1 y2. qStar u' = Some y1 \<and> lambda u' = Some y2
              \<and> q u' = Some (map2 (\<lambda>a b. a - b) y1 (mat_vec [[- 1], [1]] y2))"
    by (auto simp: example_solver_def)
  from a have "projectionStep ?s
     = Return 0 ((example_solver 0 2 2)\<lparr>qStar := Some [8, 24], lambda := Some [11],
          temp := Some [- 11, 11], q := Some [19, 13], history := [Call M_projectionStep]\<rparr>)"
    by (simp add: example_solver_def mat_vec_def row_times_def)
  with r qv b show ?thesis by blast
qed

subsection \<open>The time step\<close>

lemma stepTime_in_order: "stepTime K s = in_order (sub_steps K) s"
proof -
  have e: "in_order (f # fs) = (\<lambda>s. CHKERRQ (f s) (in_order fs))"
    for f :: "NavierStokesSolver \<Rightarrow> NavierStokesSolver outcome" and fs
    by (rule ext) simp
  have z: "in_order [] = (\<lambda>s::NavierStokesSolver. Return 0 s)"
    by (rule ext) simp
  have c: "CHKERRQ m (\<lambda>s. Return 0 s) = m" for m :: "NavierStokesSolver outcome"
    by (cases m) (simp_all add: CHKERRQ_def)
  show ?thesis
    unfolding stepTime_def sub_steps_def e z
    by (simp add: c)
qed

lemma in_order_stops:
  "reached fs i s = Some si \<Longrightarrow> i < length fs \<Longrightarrow> \<not> continues ((fs ! i) si)
     \<Longrightarrow> in_order fs s = (fs ! i) si"
proof (induction fs i s rule: reached.induct)
  case (1 fs s)
  then obtain f gs where fs: "fs = f # gs" by (cases fs) auto
  with 1 show ?case
    by (cases "f s") (simp_all add: CHKERRQ_def)
next
  case (2 i s)
  then show ?case by simp
next
  case (3 f fs i s)
  from "3.prems"(1) obtain s' where r: "f s = Return 0 s'" and a: "reached fs i s' = Some si"
    by (auto split: outcome.splits if_splits)
  from "3.IH" [OF r _ a] "3.prems" have "in_order fs s' = (fs ! i) si" by simp
  with r "3.prems" show ?case by (simp add: CHKERRQ_def)
qed

lemma in_order_completes:
  "reached fs (length fs) s = Some sf \<Longrightarrow> in_order fs s = Return 0 sf"
proof (induction fs arbitrary: s)
  case Nil
  then show ?case by simp
next
  case (Cons f fs)
  from Cons.prems obtain s' where r: "f s = Return 0 s'" and a: "reached fs (length fs) s' = Some sf"
    by (auto split: outcome.splits if_splits)
  from Cons.IH [OF a] r show ?case by (simp add: CHKERRQ_def)
qed

lemma reached_total:
  "(\<exists>i si. i < length fs \<and> reached fs i s = Some si \<and> \<not> continues ((fs ! i) si))
   \<or> (\<exists>sf. reached fs (length fs) s = Some sf)"
proof (induction fs arbitrary: s)
  case Nil
  then show ?case by simp
next
  case (Cons f fs)
  show ?case
  proof (cases "continues (f s)")
    case False
    then have "0 < length (f # fs) \<and> reached (f # fs) 0 s = Some s \<and> \<not> continues (((f # fs) ! 0) s)"
      by simp
    then show ?thesis by blast
  next
    case True
    then obtain s' where r: "f s = Return 0 s'"
      by (cases "f s") simp_all
    from Cons.IH [of s'] show ?thesis
    proof
      assume "\<exists>i si. i < length fs \<and> reached fs i s' = Some si \<and> \<not> continues ((fs ! i) si)"
      then obtain i si where "i < length fs" "reached fs i s' = Some si" "\<not> continues ((fs ! i) si)"
        by blast
      with r have "Suc i < length (f # fs) \<and> reached (f # fs) (Suc i) s = Some si
          \<and> \<not> continues (((f # fs) ! Suc i) si)"
        by simp
      then show ?thesis by blast
    next
      assume "\<exists>sf. reached fs (length fs) s' = Some sf"
      then obtain sf where "reached fs (length fs) s' = Some sf" ..
      with r have "reached (f # fs) (length (f # fs)) s = Some sf" by simp
      then show ?thesis by blast
    qed
  qed
qed

text \<open>
  C1, as the code has it. Every call of \<open>stepTime\<close> runs the sub-steps in the order
  \<open>calculateExplicitTerms\<close>, \<open>updateBoundaryGhosts\<close>, \<open>generateBC1\<close>, \<open>generateRHS1\<close>,
  \<open>solveIntermediateVelocity\<close>, \<open>generateR2\<close>, \<open>generateRHS2\<close>, \<open>solvePoissonSystem\<close>,
  \<open>projectionStep\<close>, each in the state the earlier ones left (the profiling calls between
  them always return 0). The call stops at the first sub-step whose outcome is not a return
  of 0, a non-zero error code or an exit of the process, and its outcome is then exactly the
  outcome of that sub-step. If every sub-step returns 0, the call returns 0 after it has
  incremented \<open>timeStep\<close> by exactly one. One of the two always happens, and every call that
  does not return 0 leaves \<open>timeStep\<close> as it was.
\<close>

theorem stepTime_sequence:
  "follows step_events s (stepTime K s)
   \<and> calls step_events
       = [M_calculateExplicitTerms, M_updateBoundaryGhosts, M_generateBC1, M_generateRHS1,
          M_solveIntermediateVelocity, M_generateR2, M_generateRHS2, M_solvePoissonSystem,
          M_projectionStep]
   \<and> unchanged_unless_done timeStep s (stepTime K s)
   \<and> (\<forall>s'. stepTime K s = Return 0 s' \<longrightarrow> sint (timeStep s') = sint (timeStep s) + 1)
   \<and> (\<forall>i si. i < length (sub_steps K) \<longrightarrow> reached (sub_steps K) i s = Some si
         \<longrightarrow> \<not> continues ((sub_steps K ! i) si)
         \<longrightarrow> stepTime K s = (sub_steps K ! i) si)
   \<and> (\<forall>sf. reached (sub_steps K) (length (sub_steps K)) s = Some sf
         \<longrightarrow> stepTime K s = Return 0 sf)
   \<and> ((\<exists>i si. i < length (sub_steps K) \<and> reached (sub_steps K) i s = Some si
          \<and> \<not> continues ((sub_steps K ! i) si))
        \<or> (\<exists>sf. reached (sub_steps K) (length (sub_steps K)) s = Some sf))
   \<and> continues (PetscLogStagePush stage s) \<and> continues (PetscLogStagePop s)"
proof (intro conjI allI impI)
  show "follows step_events s (stepTime K s)"
    by (rule follows_stepTime)
  show "calls step_events
       = [M_calculateExplicitTerms, M_updateBoundaryGhosts, M_generateBC1, M_generateRHS1,
          M_solveIntermediateVelocity, M_generateR2, M_generateRHS2, M_solvePoissonSystem,
          M_projectionStep]"
    by (simp add: step_events_def)
  show "unchanged_unless_done timeStep s (stepTime K s)"
    by (rule stepTime_timeStep_unless_done)
  show "sint (timeStep s') = sint (timeStep s) + 1" if "stepTime K s = Return 0 s'" for s'
    using that by (rule stepTime_increments)
  show "stepTime K s = (sub_steps K ! i) si"
    if "i < length (sub_steps K)" "reached (sub_steps K) i s = Some si"
      "\<not> continues ((sub_steps K ! i) si)" for i si
    unfolding stepTime_in_order using that(2,1,3) by (rule in_order_stops)
  show "stepTime K s = Return 0 sf"
    if "reached (sub_steps K) (length (sub_steps K)) s = Some sf" for sf
    unfolding stepTime_in_order using that by (rule in_order_completes)
  show "(\<exists>i si. i < length (sub_steps K) \<and> reached (sub_steps K) i s = Some si
          \<and> \<not> continues ((sub_steps K ! i) si))
        \<or> (\<exists>sf. reached (sub_steps K) (length (sub_steps K)) s = Some sf)"
    by (rule reached_total)
  show "continues (PetscLogStagePush stage s)"
    by (simp add: PetscLogStagePush_def)
  show "continues (PetscLogStagePop s)"
    by (simp add: PetscLogStagePop_def)
qed

theorem stepTime_sequence_witness:
  "calls_made (stepTime example_kernels (example_solver 0 2 2))
     = [M_calculateExplicitTerms, M_updateBoundaryGhosts, M_generateBC1, M_generateRHS1,
        M_solveIntermediateVelocity, M_generateR2, M_generateRHS2, M_solvePoissonSystem,
        M_projectionStep]
   \<and> final_timeStep (stepTime example_kernels (example_solver 0 2 2)) = Some 1
   \<and> \<not> exited (stepTime example_kernels (example_solver 0 2 2))
   \<and> (\<exists>s'. stepTime (example_kernels\<lparr>boundaryTerms := \<lambda>s. (77, None)\<rparr>) (example_solver 0 2 2)
              = Return 77 s'
          \<and> calls (history s')
              = [M_calculateExplicitTerms, M_updateBoundaryGhosts, M_generateBC1]
          \<and> timeStep s' = 0)"
proof -
  let ?s = "example_solver 0 2 2"
  let ?K = "example_kernels\<lparr>boundaryTerms := \<lambda>s. (77, None)\<rparr>"
  note t = stepTime_sequence [of ?s example_kernels stageInitialize]
  note u = stepTime_sequence [of ?s ?K stageInitialize]
  have "\<exists>sf. reached (sub_steps example_kernels) (length (sub_steps example_kernels)) ?s = Some sf"
    by (simp add: sub_steps_def step_defs example_defs)
  then obtain s' where
    "reached (sub_steps example_kernels) (length (sub_steps example_kernels)) ?s = Some s'" ..
  with t have r: "stepTime example_kernels ?s = Return 0 s'" by blast
  from t r
  have "history s' = history ?s @ step_events" and "sint (timeStep s') = sint (timeStep ?s) + 1"
    by (simp_all add: follows_Return)
  then have "history s' = step_events" and "sint (timeStep s') = sint (1 :: PetscInt)"
    by (simp_all add: example_solver_def)
  then have "calls (history s') = calls step_events" and "timeStep s' = 1"
    by (simp_all only: word_eq_iff_signed [symmetric])
  with r have a: "calls_made (stepTime example_kernels ?s)
     = [M_calculateExplicitTerms, M_updateBoundaryGhosts, M_generateBC1, M_generateRHS1,
        M_solveIntermediateVelocity, M_generateR2, M_generateRHS2, M_solvePoissonSystem,
        M_projectionStep]
   \<and> final_timeStep (stepTime example_kernels ?s) = Some 1
   \<and> \<not> exited (stepTime example_kernels ?s)"
    by (simp add: calls_made_def final_timeStep_def step_events_def)
  have "\<exists>si s'. reached (sub_steps ?K) 3 ?s = Some si \<and> (sub_steps ?K ! 3) si = Return 77 s'
      \<and> calls (history s') = [M_calculateExplicitTerms, M_updateBoundaryGhosts, M_generateBC1]
      \<and> timeStep s' = 0"
    by (simp add: sub_steps_def numeral_3_eq_3 step_defs example_defs)
  then obtain si s'' where b: "reached (sub_steps ?K) 3 ?s = Some si"
    "(sub_steps ?K ! 3) si = Return 77 s''"
    "calls (history s'') = [M_calculateExplicitTerms, M_updateBoundaryGhosts, M_generateBC1]"
    "timeStep s'' = 0"
    by blast
  have "3 < length (sub_steps ?K)" "\<not> continues ((sub_steps ?K ! 3) si)"
    using b(2) by (simp_all add: sub_steps_def)
  with u b(1) have "stepTime ?K ?s = (sub_steps ?K ! 3) si" by blast
  with b have "\<exists>s'. stepTime ?K ?s = Return 77 s'
          \<and> calls (history s') = [M_calculateExplicitTerms, M_updateBoundaryGhosts, M_generateBC1]
          \<and> timeStep s' = 0"
    by simp
  with a show ?thesis by blast
qed

text \<open>
  C1 as stated fails where System 1 diverges: the process exits inside
  \<open>solveIntermediateVelocity\<close>, the four later sub-steps are never entered and the step
  counter is not incremented.
\<close>

theorem stepTime_diverged_counterexample:
  "exited (stepTime example_kernels (example_solver 0 (- 3) 2))
   \<and> calls_made (stepTime example_kernels (example_solver 0 (- 3) 2))
       = [M_calculateExplicitTerms, M_updateBoundaryGhosts, M_generateBC1, M_generateRHS1,
          M_solveIntermediateVelocity]
   \<and> final_timeStep (stepTime example_kernels (example_solver 0 (- 3) 2)) = Some 0"
  by (simp add: step_defs example_defs calls_made_def final_timeStep_def)

subsection \<open>Divergence of a linear solve\<close>

text \<open>
  C5, as the code has it. When the solve call returns 0 and the convergence reason is
  negative, \<open>solveIntermediateVelocity\<close> and \<open>solvePoissonSystem\<close> print one diagnostic that
  contains the reason code, then exit the process with status 0: the context has been
  solved with once, and nothing but the solution vector, the context and the log has
  changed. With a non-negative reason they return 0.
\<close>

theorem divergence_is_fatal:
  "(ksp1 s = Some k1 \<longrightarrow> rhs1 s = Some b1 \<longrightarrow> qStar s = Some x1
      \<longrightarrow> ksp_apply k1 (ksp_solves k1) b1 x1 = (0, y1, reason1)
      \<longrightarrow> solveIntermediateVelocity s =
           (if reason1 < 0
            then Exit 0
              (s\<lparr>ksp1 := Some (k1\<lparr>ksp_solves := Suc (ksp_solves k1), ksp_reason := reason1\<rparr>),
                 qStar := Some y1,
                 history := history s @ [Call M_solveIntermediateVelocity,
                   StagePush stageSolveVelocitySystem, StagePop],
                 printed := printed s @ [velocity_diverged reason1]\<rparr>)
            else Return 0
              (s\<lparr>ksp1 := Some (k1\<lparr>ksp_solves := Suc (ksp_solves k1), ksp_reason := reason1\<rparr>),
                 qStar := Some y1,
                 history := history s @ [Call M_solveIntermediateVelocity,
                   StagePush stageSolveVelocitySystem, StagePop]\<rparr>)))
   \<and> (ksp2 s = Some k2 \<longrightarrow> rhs2 s = Some b2 \<longrightarrow> lambda s = Some x2
      \<longrightarrow> ksp_apply k2 (ksp_solves k2) b2 x2 = (0, y2, reason2)
      \<longrightarrow> solvePoissonSystem s =
           (if reason2 < 0
            then Exit 0
              (s\<lparr>lambda := Some y2,
                 ksp2 := Some (k2\<lparr>ksp_solves := Suc (ksp_solves k2), ksp_reason := reason2\<rparr>),
                 history := history s @ [Call M_solvePoissonSystem,
                   StagePush stageSolvePoissonSystem, StagePop],
                 printed := printed s @ [poisson_diverged reason2]\<rparr>)
            else Return 0
              (s\<lparr>lambda := Some y2,
                 ksp2 := Some (k2\<lparr>ksp_solves := Suc (ksp_solves k2), ksp_reason := reason2\<rparr>),
                 history := history s @ [Call M_solvePoissonSystem,
                   StagePush stageSolvePoissonSystem, StagePop]\<rparr>)))
   \<and> sublist (format_d reason1) (velocity_diverged reason1)
   \<and> sublist (format_d reason2) (poisson_diverged reason2)"
proof (intro conjI impI)
  show "sublist (format_d reason1) (velocity_diverged reason1)"
    unfolding velocity_diverged_def by (rule sublist_appendI)
  show "sublist (format_d reason2) (poisson_diverged reason2)"
    unfolding poisson_diverged_def by (rule sublist_appendI)
qed (simp_all add: solveIntermediateVelocity_def solvePoissonSystem_def
      CHKERRQ_def PetscLogStagePush_def PetscLogStagePop_def enter_def KSPSolve1_def
      KSPSolve2_def KSPSolve_def KSPGetConvergedReason_def PetscPrintf_def)

theorem divergence_is_fatal_witness:
  "exited (solveIntermediateVelocity (example_solver 7 (- 3) 2))
   \<and> messages (solveIntermediateVelocity (example_solver 7 (- 3) 2))
       = [''Velocity solve diverged due to reason: -3'' @ [CHR 0x0A]]
   \<and> solvePoissonSystem (example_solver 7 (- 3) 2)
       = Return 0 ((example_solver 7 (- 3) 2)
           \<lparr>ksp2 := Some ((example_ksp 2)\<lparr>ksp_solves := 1, ksp_reason := 2\<rparr>),
            history := [Call M_solvePoissonSystem, StagePush stageSolvePoissonSystem, StagePop]\<rparr>)"
proof -
  let ?s = "example_solver 7 (- 3) 2"
  have h: "ksp1 ?s = Some (example_ksp (- 3))" "rhs1 ?s = Some [0, 0]" "qStar ?s = Some [0, 0]"
    "ksp_apply (example_ksp (- 3)) (ksp_solves (example_ksp (- 3))) [0, 0] [0, 0]
       = (0, [0, 0], - 3)"
    "ksp2 ?s = Some (example_ksp 2)" "rhs2 ?s = Some [0]" "lambda ?s = Some [0]"
    "ksp_apply (example_ksp 2) (ksp_solves (example_ksp 2)) [0] [0] = (0, [0], 2)"
    by (simp_all add: example_defs)
  from divergence_is_fatal [of ?s "example_ksp (- 3)" "[0, 0]" "[0, 0]" "[0, 0]" "- 3"
      "example_ksp 2" "[0]" "[0]" "[0]" 2] h
  show ?thesis
    by (simp add: messages_def velocity_diverged_def format_d_def example_defs)
qed

text \<open>
  C5 as stated fails on the content of the diagnostic: at step 7 with reason -3 the message
  is the format string with the reason code, and the step index does not occur in it.
\<close>

theorem diagnostic_omits_step_index:
  "exited (solveIntermediateVelocity (example_solver 7 (- 3) 2))
   \<and> messages (solveIntermediateVelocity (example_solver 7 (- 3) 2))
       = [''Velocity solve diverged due to reason: -3'' @ [CHR 0x0A]]
   \<and> format_d (sint (timeStep (example_solver 7 (- 3) 2))) = ''7''
   \<and> \<not> sublist ''7'' (''Velocity solve diverged due to reason: -3'' @ [CHR 0x0A])
   \<and> exited (solvePoissonSystem (example_solver 7 2 (- 3)))
   \<and> messages (solvePoissonSystem (example_solver 7 2 (- 3)))
       = [''Poisson solve diverged due to reason: -3'' @ [CHR 0x0A]]
   \<and> \<not> sublist ''7'' (''Poisson solve diverged due to reason: -3'' @ [CHR 0x0A])"
  by (simp add: step_defs example_defs messages_def sublist_code)

subsection \<open>Termination of the run\<close>

lemma sint_add_PetscInt:
  assumes "PETSC_MIN_INT \<le> sint a + sint b" and "sint a + sint b \<le> PETSC_MAX_INT"
  shows "sint (a + b :: PetscInt) = sint a + sint b"
proof -
  have "a + b = word_of_int (sint a + sint b)" by simp
  with sint_word_of_int_PetscInt [OF assms] show ?thesis by (simp only:)
qed

lemma finished_value:
  assumes "PETSC_MIN_INT \<le> sint (startStep (simParams s)) + sint (nt (simParams s))"
    and "sint (startStep (simParams s)) + sint (nt (simParams s)) \<le> PETSC_MAX_INT"
  shows "finished s
         = Inr (sint (startStep (simParams s)) + sint (nt (simParams s)) \<le> sint (timeStep s))"
  using assms
  by (simp add: finished_def PetscInt_add_def signed_result_def word_sle_eq
      sint_add_PetscInt)

lemma stepTimes_Return0:
  "stepTimes K n s0 = Return 0 s \<Longrightarrow>
     sint (timeStep s) = sint (timeStep s0) + int n \<and> simParams s = simParams s0"
proof (induction n arbitrary: s0)
  case 0
  then show ?case by simp
next
  case (Suc n)
  then obtain s1 where a: "stepTime K s0 = Return 0 s1" and b: "stepTimes K n s1 = Return 0 s"
    by (auto simp: CHKERRQ_Return0)
  from a have "sint (timeStep s1) = sint (timeStep s0) + 1"
    by (rule stepTime_increments)
  moreover from a stepTime_simParams [of s0 K] have "simParams s1 = simParams s0"
    by simp
  moreover note Suc.IH [OF b]
  ultimately show ?case by simp
qed

text \<open>
  C7. The constructor sets \<open>timeStep\<close> to \<open>startStep = s0\<close>. Starting from a solver that has
  the constructed \<open>timeStep\<close> and parameters, after \<open>n\<close> calls of \<open>stepTime\<close> that returned 0
  the step counter is \<open>s0 + n\<close>, and \<open>finished()\<close> is true exactly when the counter has
  reached \<open>s0 + k\<close>, that is when \<open>n \<ge> k\<close> (\<open>k = nt\<close>, with \<open>s0 + k\<close> representable).
\<close>

theorem finished_after_nt_steps:
  assumes "simParams s0 = simParams (NavierStokesSolver_new directory params indeterminate)"
    and "timeStep s0 = timeStep (NavierStokesSolver_new directory params indeterminate)"
    and "stepTimes K n s0 = Return 0 s"
    and "PETSC_MIN_INT \<le> sint (startStep params) + sint (nt params)"
    and "sint (startStep params) + sint (nt params) \<le> PETSC_MAX_INT"
  shows "sint (timeStep s) = sint (startStep params) + int n
    \<and> finished s = Inr (sint (startStep params) + sint (nt params) \<le> sint (timeStep s))
    \<and> finished s = Inr (sint (nt params) \<le> int n)"
proof -
  from assms(1,2) have p: "simParams s0 = params" and t: "timeStep s0 = startStep params"
    by (simp_all add: NavierStokesSolver_new_def)
  from stepTimes_Return0 [OF assms(3)] p t
  have ts: "sint (timeStep s) = sint (startStep params) + int n" and ps: "simParams s = params"
    by simp_all
  from assms(4,5) ps
  have f: "finished s = Inr (sint (startStep params) + sint (nt params) \<le> sint (timeStep s))"
    by (simp add: finished_value)
  from f ts have "finished s = Inr (sint (nt params) \<le> int n)" by simp
  with ts f show ?thesis by simp
qed

theorem finished_after_nt_steps_witness:
  "finished_after (stepTimes example_kernels 0 (example_solver 0 2 2)) = Some (Inr False)
   \<and> finished_after (stepTimes example_kernels 1 (example_solver 0 2 2)) = Some (Inr False)
   \<and> finished_after (stepTimes example_kernels 2 (example_solver 0 2 2)) = Some (Inr True)"
proof -
  let ?s = "example_solver 0 2 2"
  have p: "simParams ?s = simParams (NavierStokesSolver_new ''case'' example_params None)"
    "timeStep ?s = timeStep (NavierStokesSolver_new ''case'' example_params None)"
    by (simp_all add: example_defs NavierStokesSolver_new_def)
  have r: "PETSC_MIN_INT \<le> sint (startStep example_params) + sint (nt example_params)"
    "sint (startStep example_params) + sint (nt example_params) \<le> PETSC_MAX_INT"
    by (simp_all add: example_defs PETSC_MIN_INT_def PETSC_MAX_INT_def)
  have "\<exists>s. stepTimes example_kernels 0 ?s = Return 0 s" by simp
  then obtain s0 where s0: "stepTimes example_kernels 0 ?s = Return 0 s0" ..
  have "\<exists>s. stepTimes example_kernels 1 ?s = Return 0 s"
    by (simp add: step_defs example_defs)
  then obtain s1 where s1: "stepTimes example_kernels 1 ?s = Return 0 s1" ..
  have "\<exists>s. stepTimes example_kernels 2 ?s = Return 0 s"
    by (simp add: numeral_2_eq_2 step_defs example_defs)
  then obtain s2 where s2: "stepTimes example_kernels 2 ?s = Return 0 s2" ..
  from finished_after_nt_steps [OF p s0 r] finished_after_nt_steps [OF p s1 r]
    finished_after_nt_steps [OF p s2 r]
  have "finished s0 = Inr False" "finished s1 = Inr False" "finished s2 = Inr True"
    by (simp_all add: example_defs)
  with s0 s1 s2 show ?thesis
    by (simp add: finished_after_def)
qed

end
